theory Spec2Isabelle
  imports Complex_Main "HOL-Library.Word" "HOL-Library.Signed_Division"
begin

section \<open>Data model of dataselect.c\<close>

text \<open>
  High precision times (\<open>hptime_t\<close>, a signed 64-bit tick count) and the C \<open>int\<close>
  counters are modelled as unbounded integers: signed overflow is undefined in C and no
  property below depends on it. Sample rates and the time tolerance are C doubles; they are
  modelled as rationals, so rounding of the floating point unit is not part of the model.
  Bytes are \<open>char\<close>, buffers and file contents are \<open>string\<close>.
\<close>

type_synonym hptime = int

text \<open>Modelled from the spec: \<open>HPTMODULUS\<close> is declared in libmseed.h, which is not part of
  the repository; the spec gives 1,000,000 ticks per second.\<close>

definition HPTMODULUS :: int where
  "HPTMODULUS = 1000000"

text \<open>Input/output file information (struct \<open>Filelink_s\<close>). A \<open>FILE *\<close> is modelled
  by a flag telling whether the stream is open; a \<open>Record\<close> refers to its file by the
  position of the file in the global file list.\<close>

record Filelink =
  infilename :: string
  infp :: bool
  outfilename :: "string option"
  outfp :: bool
  reordercount :: int
  recsplitcount :: int
  recrmcount :: int
  rectrimcount :: int
  earliest :: hptime
  latest :: hptime
  byteswritten :: int

text \<open>Mini-SEED record information (struct \<open>Record_s\<close>); the \<open>prev\<close>/\<open>next\<close> links
  are the order of the list that holds the record.\<close>

record Record =
  flp :: nat
  offset :: nat
  reclen :: int
  starttime :: hptime
  endtime :: hptime
  quality :: char
  newstart :: hptime
  newend :: hptime

text \<open>Time segment containers (struct \<open>TimeSegment_s\<close>).\<close>

record TimeSegment =
  ts_starttime :: hptime
  ts_endtime :: hptime

text \<open>The fields of libmseed's \<open>MSTrace\<close> that dataselect.c reads. The four name fields
  are the 44 bytes compared by \<open>memcmp\<close> in \<open>prunetraces\<close>; \<open>recordmap\<close> stands for
  \<open>private\<close>, the \<open>RecordMap\<close> of the trace, the chain from \<open>first\<close> to \<open>last\<close>.\<close>

record MSTrace =
  network :: string
  station :: string
  location :: string
  channel :: string
  dataquality :: char
  samprate :: rat
  mst_starttime :: hptime
  mst_endtime :: hptime
  recordmap :: "Record list"

section \<open>Arithmetic of the C source\<close>

text \<open>Conversion of a double to an integer type truncates towards zero.\<close>

definition c_trunc :: "rat \<Rightarrow> int" where
  "c_trunc x = (if 0 \<le> x then \<lfloor>x\<rfloor> else \<lceil>x\<rceil>)"

text \<open>\<open>( samprate ) ? (hptime_t) (HPTMODULUS / samprate) : 0\<close>\<close>

definition hpdelta_of :: "rat \<Rightarrow> hptime" where
  "hpdelta_of rate = (if rate \<noteq> 0 then c_trunc (of_int HPTMODULUS / rate) else 0)"

text \<open>\<open>( timetol == -1 ) ? (hpdelta / 2) : (hptime_t) (HPTMODULUS * timetol)\<close>\<close>

definition hptimetol_of :: "rat \<Rightarrow> hptime \<Rightarrow> hptime" where
  "hptimetol_of timetol hpdelta =
     (if timetol = - 1 then hpdelta sdiv 2 else c_trunc (of_int HPTMODULUS * timetol))"

text \<open>Effective record start and end times:
  \<open>( rec->newstart ) ? rec->newstart : rec->starttime\<close> and the same for the end.\<close>

definition effstarttime :: "Record \<Rightarrow> hptime" where
  "effstarttime rec = (if newstart rec \<noteq> 0 then newstart rec else starttime rec)"

definition effendtime :: "Record \<Rightarrow> hptime" where
  "effendtime rec = (if newend rec \<noteq> 0 then newend rec else endtime rec)"

text \<open>An update through the \<open>flp\<close> pointer of a record. In the C program the pointer
  always refers to a live entry of the file list; an index outside the list changes
  nothing.\<close>

definition upd_file :: "nat \<Rightarrow> (Filelink \<Rightarrow> Filelink) \<Rightarrow> Filelink list \<Rightarrow> Filelink list" where
  "upd_file i g files = (if i < length files then files[i := g (files ! i)] else files)"

section \<open>trimtraces\<close>

text \<open>First loop of \<open>trimtraces\<close>: the coverage of the higher priority trace as a list of
  time segments. \<open>segs\<close> is the list built so far, its last element is \<open>tsp\<close>. A new
  segment is started for the first contributing record and whenever
  \<open>llabs((tsp->endtime + hpdelta) - effstarttime) > hptimetol\<close>.\<close>

fun hp_segments :: "hptime \<Rightarrow> hptime \<Rightarrow> Record list \<Rightarrow> TimeSegment list \<Rightarrow> TimeSegment list" where
  "hp_segments hpdelta hptimetol [] segs = segs"
| "hp_segments hpdelta hptimetol (rec # recs) segs =
     (if reclen rec = 0 then hp_segments hpdelta hptimetol recs segs
      else if segs = [] \<or> \<bar>(ts_endtime (last segs) + hpdelta) - effstarttime rec\<bar> > hptimetol
      then hp_segments hpdelta hptimetol recs
             (segs @ [\<lparr>ts_starttime = effstarttime rec, ts_endtime = effendtime rec\<rparr>])
      else hp_segments hpdelta hptimetol recs
             (butlast segs @ [(last segs)\<lparr>ts_endtime := effendtime rec\<rparr>]))"

text \<open>The test \<open>effstarttime >= tsp->starttime && effendtime <= tsp->endtime\<close> on the
  effective times of the record.\<close>

definition overlapped :: "Record \<Rightarrow> TimeSegment \<Rightarrow> bool" where
  "overlapped rec tsp = (effstarttime rec \<ge> ts_starttime tsp \<and> effendtime rec \<le> ts_endtime tsp)"

text \<open>The state of the second loop: the record under comparison, the file list and
  \<open>modcount\<close>.\<close>

type_synonym trimstate = "Record \<times> Filelink list \<times> int"

definition mark_removed :: "trimstate \<Rightarrow> trimstate" where
  "mark_removed = (\<lambda>(rec, files, modcount).
     (rec\<lparr>reclen := 0\<rparr>,
      upd_file (flp rec) (\<lambda>f. f\<lparr>recrmcount := recrmcount f + 1\<rparr>) files,
      modcount + 1))"

definition set_newend :: "hptime \<Rightarrow> trimstate \<Rightarrow> trimstate" where
  "set_newend t = (\<lambda>(rec, files, modcount).
     (rec\<lparr>newend := t\<rparr>,
      upd_file (flp rec) (\<lambda>f. f\<lparr>rectrimcount := rectrimcount f + 1\<rparr>) files,
      modcount + 1))"

definition set_newstart :: "hptime \<Rightarrow> trimstate \<Rightarrow> trimstate" where
  "set_newstart t = (\<lambda>(rec, files, modcount).
     (rec\<lparr>newstart := t\<rparr>,
      upd_file (flp rec) (\<lambda>f. f\<lparr>rectrimcount := rectrimcount f + 1\<rparr>) files,
      modcount + 1))"

text \<open>The tests \<open>effstarttime <= t && effendtime >= t\<close> of the sample level pruning, for
  \<open>t\<close> the start and the end time of the higher priority trace.\<close>

definition crosses :: "Record \<Rightarrow> hptime \<Rightarrow> bool" where
  "crosses rec t = (effstarttime rec \<le> t \<and> effendtime rec \<ge> t)"

text \<open>Body of the inner \<open>while ( tsp )\<close> loop: one record of the lower priority trace
  against one segment. The effective times are computed once, at the top of the body, from
  the record as it enters the body.\<close>

definition trim_compare :: "char \<Rightarrow> MSTrace \<Rightarrow> hptime \<Rightarrow> TimeSegment \<Rightarrow> trimstate \<Rightarrow> trimstate" where
  "trim_compare prunedata hptrace hpdelta tsp st =
     (let rec = fst st;
          st1 = (if overlapped rec tsp then mark_removed st else st)
      in if prunedata = CHR ''s'' \<and> reclen (fst st1) \<noteq> 0
         then
           (let st2 = (if crosses rec (mst_starttime hptrace)
                       then set_newend (mst_starttime hptrace - hpdelta) st1 else st1)
            in if crosses rec (mst_endtime hptrace)
               then set_newstart (mst_endtime hptrace + hpdelta) st2 else st2)
         else st1)"

text \<open>The outer \<open>while ( rec )\<close> loop over the record chain of the lower priority trace;
  every record meets every segment, in order.\<close>

fun trim_records ::
  "char \<Rightarrow> MSTrace \<Rightarrow> hptime \<Rightarrow> TimeSegment list \<Rightarrow> Record list \<Rightarrow> Filelink list \<Rightarrow> int
     \<Rightarrow> Record list \<times> Filelink list \<times> int" where
  "trim_records prunedata hptrace hpdelta ts [] files modcount = ([], files, modcount)"
| "trim_records prunedata hptrace hpdelta ts (rec # recs) files modcount =
     (case fold (trim_compare prunedata hptrace hpdelta) ts (rec, files, modcount) of
        (rec', files', modcount') \<Rightarrow>
          (case trim_records prunedata hptrace hpdelta ts recs files' modcount' of
             (recs', files'', modcount'') \<Rightarrow> (rec' # recs', files'', modcount'')))"

text \<open>The segments that \<open>trimtraces\<close> computes for a higher priority trace.\<close>

definition coverage :: "rat \<Rightarrow> MSTrace \<Rightarrow> TimeSegment list" where
  "coverage timetol hptrace =
     hp_segments (hpdelta_of (samprate hptrace))
       (hptimetol_of timetol (hpdelta_of (samprate hptrace))) (recordmap hptrace) []"

text \<open>\<open>trimtraces (lptrace, hptrace)\<close>: returns the record chain of the lower priority
  trace, the file list and the number of modifications.\<close>

definition trimtraces ::
  "char \<Rightarrow> rat \<Rightarrow> MSTrace \<Rightarrow> MSTrace \<Rightarrow> Filelink list \<Rightarrow> Record list \<times> Filelink list \<times> int" where
  "trimtraces prunedata timetol lptrace hptrace files =
     trim_records prunedata hptrace (hpdelta_of (samprate hptrace))
       (coverage timetol hptrace) (recordmap lptrace) files 0"

section \<open>prunetraces\<close>

definition qcompare :: "char \<Rightarrow> char \<Rightarrow> int" where
  "qcompare quality1 quality2 =
     (if quality1 = quality2 then 0
      else if quality1 = CHR ''R'' \<and> (quality2 = CHR ''D'' \<or> quality2 = CHR ''Q'') then 1
      else if quality1 = CHR ''D'' \<and> quality2 = CHR ''Q'' then 1
      else - 1)"

text \<open>The 44 bytes from \<open>MSTrace.network\<close> on, compared by \<open>memcmp\<close>.\<close>

definition srcname44 :: "MSTrace \<Rightarrow> string \<times> string \<times> string \<times> string" where
  "srcname44 mst = (network mst, station mst, location mst, channel mst)"

text \<open>The state of the two nested loops: the local variable \<open>priority\<close> (declared once,
  at the top of the function, and initialised to 0), the traces of the group and the file
  list.\<close>

type_synonym prunestate = "int \<times> MSTrace list \<times> Filelink list"

text \<open>Body of the inner loop for the traces at positions \<open>i\<close> (\<open>mst\<close>) and \<open>j\<close>
  (\<open>imst\<close>). \<open>MS_ISRATETOLERABLE\<close> is a macro of libmseed.h and is a parameter here.\<close>

definition prune_pair ::
  "bool \<Rightarrow> char \<Rightarrow> rat \<Rightarrow> (rat \<Rightarrow> rat \<Rightarrow> bool) \<Rightarrow> nat \<Rightarrow> nat \<Rightarrow> prunestate \<Rightarrow> prunestate" where
  "prune_pair bestquality prunedata timetol ratetolerable i j = (\<lambda>(priority, traces, files).
     let mst = traces ! i; imst = traces ! j
     in if srcname44 mst \<noteq> srcname44 imst \<or> \<not> ratetolerable (samprate mst) (samprate imst)
        then (priority, traces, files)
        else if mst_endtime mst > mst_starttime imst \<and> mst_starttime mst < mst_endtime imst
        then
          (let p1 = (if bestquality then qcompare (dataquality mst) (dataquality imst) else priority);
               p2 = (if p1 = 0
                     then (if (mst_endtime mst - mst_starttime mst) > (mst_endtime imst - mst_starttime imst)
                           then - 1 else 1)
                     else p1)
           in if p2 = 1
              then (case trimtraces prunedata timetol mst imst files of
                      (recs, files', modcount) \<Rightarrow> (p2, traces[i := mst\<lparr>recordmap := recs\<rparr>], files'))
              else (case trimtraces prunedata timetol imst mst files of
                      (recs, files', modcount) \<Rightarrow> (p2, traces[j := imst\<lparr>recordmap := recs\<rparr>], files')))
        else (priority, traces, files))"

text \<open>\<open>prunetraces\<close>: every trace against every later trace of the group. The result is the
  return code with the traces and the file list.\<close>

definition prunetraces ::
  "bool \<Rightarrow> char \<Rightarrow> rat \<Rightarrow> (rat \<Rightarrow> rat \<Rightarrow> bool) \<Rightarrow> MSTrace list \<Rightarrow> Filelink list
     \<Rightarrow> int \<times> MSTrace list \<times> Filelink list" where
  "prunetraces bestquality prunedata timetol ratetolerable traces files =
     (if traces = [] then (- 1, traces, files)
      else (case fold (\<lambda>i. fold (prune_pair bestquality prunedata timetol ratetolerable i)
                               [Suc i ..< length traces])
                      [0 ..< length traces] (0, traces, files) of
              (priority, traces', files') \<Rightarrow> (0, traces', files')))"

section \<open>Example inputs\<close>

text \<open>A file list entry as \<open>addfile\<close> creates it.\<close>

definition ex_file :: "string \<Rightarrow> Filelink" where
  "ex_file name = \<lparr>infilename = name, infp = False, outfilename = None, outfp = False,
     reordercount = 0, recsplitcount = 0, recrmcount = 0, rectrimcount = 0,
     earliest = 0, latest = 0, byteswritten = 0\<rparr>"

text \<open>A 512 byte record of quality D at the start of file \<open>f\<close>, as \<open>readfiles\<close> creates
  it, and a 1 Hz trace of channel IU.ANMO.00.BHZ.\<close>

definition ex_rec :: "nat \<Rightarrow> hptime \<Rightarrow> hptime \<Rightarrow> Record" where
  "ex_rec f s e = \<lparr>flp = f, offset = 0, reclen = 512, starttime = s, endtime = e,
     quality = CHR ''D'', newstart = 0, newend = 0\<rparr>"

definition ex_trace :: "char \<Rightarrow> hptime \<Rightarrow> hptime \<Rightarrow> Record list \<Rightarrow> MSTrace" where
  "ex_trace q s e recs = \<lparr>network = ''IU'', station = ''ANMO'', location = ''00'', channel = ''BHZ'',
     dataquality = q, samprate = 1, mst_starttime = s, mst_endtime = e, recordmap = recs\<rparr>"

text \<open>The rate test as libmseed.h writes it: \<open>ms_dabs (1.0 - (A / B)) < 0.0001\<close>.\<close>

definition ex_tolerable :: "rat \<Rightarrow> rat \<Rightarrow> bool" where
  "ex_tolerable a b = (\<bar>1 - a / b\<bar> < 1 / 10000)"

text \<open>Two traces of the same channel and quality with identical bounds, ten seconds long,
  one record each, from two files.\<close>

definition ex_A :: MSTrace where
  "ex_A = ex_trace (CHR ''D'') 0 10000000 [ex_rec 0 0 10000000]"

definition ex_B :: MSTrace where
  "ex_B = ex_trace (CHR ''D'') 0 10000000 [ex_rec 1 0 10000000]"

definition ex_files :: "Filelink list" where
  "ex_files = [ex_file ''a.mseed'', ex_file ''b.mseed'']"

text \<open>Scenario 3 of the spec: the higher priority trace covers 10 s to 20 s, the record of
  the lower priority trace covers 18 s to 25 s.\<close>

definition ex_HP :: MSTrace where
  "ex_HP = ex_trace (CHR ''D'') 10000000 20000000 [ex_rec 0 10000000 20000000]"

definition ex_seg :: "hptime \<Rightarrow> hptime \<Rightarrow> TimeSegment" where
  "ex_seg s e = \<lparr>ts_starttime = s, ts_endtime = e\<rparr>"






section \<open>Auxiliary notions for the statements\<close>

text \<open>The number of segments that completely overlap a record.\<close>

definition hits :: "TimeSegment list \<Rightarrow> Record \<Rightarrow> nat" where
  "hits ts rec = length (filter (overlapped rec) ts)"

text \<open>The file list after each record has reported its removals.\<close>

fun rm_files :: "TimeSegment list \<Rightarrow> Record list \<Rightarrow> Filelink list \<Rightarrow> Filelink list" where
  "rm_files ts [] files = files"
| "rm_files ts (rec # recs) files =
     rm_files ts recs (upd_file (flp rec) (\<lambda>f. f\<lparr>recrmcount := recrmcount f + int (hits ts rec)\<rparr>) files)"

text \<open>What one comparison with a segment does to the record alone.\<close>

definition rec_step :: "char \<Rightarrow> MSTrace \<Rightarrow> hptime \<Rightarrow> TimeSegment \<Rightarrow> Record \<Rightarrow> Record" where
  "rec_step prunedata hptrace d tsp rec = fst (trim_compare prunedata hptrace d tsp (rec, [], 0))"






section \<open>readfiles\<close>

text \<open>Modelled from the spec: \<open>HPTERROR\<close> is declared in libmseed.h, which is not part of
  the repository. The spec calls it a sentinel that is disjoint from all legal times; the
  value is the one of libmseed.h. The globals \<open>starttime\<close> and \<open>endtime\<close> hold it until
  the options -ts and -te set them.\<close>

definition HPTERROR :: hptime where
  "HPTERROR = - 2145916800000000"

text \<open>The fields of libmseed's \<open>MSRecord\<close> that dataselect.c reads or writes.\<close>

record MSRecord =
  msr_reclen :: int
  msr_dataquality :: char
  msr_samprate :: rat
  msr_starttime :: hptime
  msr_numsamples :: int
  msr_samplecnt :: int
  msr_datasamples :: "int list"

text \<open>What the loop over the records of a file decides for a record.\<close>

datatype selection = Skip_starttime | Skip_endtime | Skip_match | Skip_reject | Selected

text \<open>The four checks at the top of the loop body, in their order. \<open>g_starttime\<close> and
  \<open>g_endtime\<close> are the globals \<open>starttime\<close> and \<open>endtime\<close>; \<open>match\<close> and \<open>reject\<close> are
  the compiled expressions, a function that tells whether \<open>regexec\<close> returns 0. The global
  \<open>prunedata\<close> is not read by any of the checks.\<close>

definition select_record ::
  "hptime \<Rightarrow> hptime \<Rightarrow> (string \<Rightarrow> bool) option \<Rightarrow> (string \<Rightarrow> bool) option
     \<Rightarrow> string \<Rightarrow> hptime \<Rightarrow> hptime \<Rightarrow> selection" where
  "select_record g_starttime g_endtime match reject srcname recstarttime recendtime =
     (if g_starttime \<noteq> HPTERROR \<and> g_starttime < recstarttime then Skip_starttime
      else if g_endtime \<noteq> HPTERROR \<and> recendtime > g_endtime then Skip_endtime
      else if (case match of None \<Rightarrow> False | Some m \<Rightarrow> \<not> m srcname) then Skip_match
      else if (case reject of None \<Rightarrow> False | Some r \<Rightarrow> r srcname) then Skip_reject
      else Selected)"

text \<open>``Create and populate new Record structure''.\<close>

definition new_record :: "nat \<Rightarrow> nat \<Rightarrow> MSRecord \<Rightarrow> hptime \<Rightarrow> hptime \<Rightarrow> Record" where
  "new_record fl fpos msr recstarttime recendtime =
     \<lparr>flp = fl, offset = fpos, reclen = msr_reclen msr, starttime = recstarttime,
      endtime = recendtime, quality = msr_dataquality msr, newstart = 0, newend = 0\<rparr>"

text \<open>``If pruning at the sample level trim right at the start/end times'': the two
  assignments are guarded by \<open>rec->newstart && rec->newstart < starttime\<close> and
  \<open>rec->newend && rec->newend > endtime\<close>.\<close>

definition window_trim :: "char \<Rightarrow> hptime \<Rightarrow> hptime \<Rightarrow> Record \<Rightarrow> Record" where
  "window_trim prunedata g_starttime g_endtime rec =
     (if prunedata = CHR ''s''
      then
        (let rec1 = (if g_starttime \<noteq> HPTERROR \<and> g_starttime > starttime rec \<and>
                        g_starttime < endtime rec \<and>
                        newstart rec \<noteq> 0 \<and> newstart rec < g_starttime
                     then rec\<lparr>newstart := g_starttime\<rparr> else rec)
         in if g_endtime \<noteq> HPTERROR \<and> g_endtime > starttime rec \<and> g_endtime < endtime rec \<and>
               newend rec1 \<noteq> 0 \<and> newend rec1 > g_endtime
            then rec1\<lparr>newend := g_endtime\<rparr> else rec1)
      else rec)"

text \<open>Modelled from the spec: the next split boundary. The source converts the effective
  start time with libmseed's \<open>ms_hptime2btime\<close>, adds one to the day, hour or minute field,
  clears the finer fields and converts back with \<open>ms_btime2hptime\<close>; both functions are not
  part of the repository. The spec describes the result as the next boundary strictly
  greater than the effective start, with all finer fields zeroed; days, hours and minutes
  of the epoch time scale have a fixed number of ticks. An unrecognised code gives no
  boundary.\<close>

definition next_boundary :: "char \<Rightarrow> hptime \<Rightarrow> hptime option" where
  "next_boundary splitboundary t =
     (if splitboundary = CHR ''d''
      then Some ((t div (86400 * HPTMODULUS) + 1) * (86400 * HPTMODULUS))
      else if splitboundary = CHR ''h''
      then Some ((t div (3600 * HPTMODULUS) + 1) * (3600 * HPTMODULUS))
      else if splitboundary = CHR ''m''
      then Some ((t div (60 * HPTMODULUS) + 1) * (60 * HPTMODULUS))
      else None)"

text \<open>The \<open>for (;;)\<close> loop that splits a record. \<open>chain\<close> holds the records of the new
  chain before the current record \<open>rec\<close>; each of them is linked to its successor by
  \<open>next\<close>. The clone is a copy of the current record, made before \<open>newend\<close> is set. The
  loop ends when the end time is not beyond the boundary, or with an error message for an
  unrecognised boundary code. The loop need not end: the result \<open>None\<close> stands for a loop
  that runs forever.\<close>

partial_function (option) split_loop ::
  "char \<Rightarrow> hptime \<Rightarrow> Record list \<Rightarrow> Record \<Rightarrow> Filelink list \<Rightarrow> (Record list \<times> Filelink list) option"
  where
  "split_loop splitboundary hpdelta chain rec files =
     (case next_boundary splitboundary (effstarttime rec) of
        None \<Rightarrow> Some (chain @ [rec], files)
      | Some boundary \<Rightarrow>
          if endtime rec > boundary
          then split_loop splitboundary hpdelta
                 (chain @ [rec\<lparr>newend := boundary - hpdelta\<rparr>])
                 (rec\<lparr>newstart := boundary\<rparr>)
                 (upd_file (flp rec) (\<lambda>f. f\<lparr>recsplitcount := recsplitcount f + 1\<rparr>) files)
          else Some (chain @ [rec], files))"

declare split_loop.simps [code]

text \<open>``Create extra Record structures if splitting on a time boundary'': the chain of
  records that stands for one record read from the file.\<close>

definition split_record ::
  "char \<Rightarrow> rat \<Rightarrow> Record \<Rightarrow> Filelink list \<Rightarrow> (Record list \<times> Filelink list) option" where
  "split_record splitboundary rate rec files =
     (if splitboundary = CHR 0x00 then Some ([rec], files)
      else split_loop splitboundary (hpdelta_of rate) [] rec files)"

text \<open>The body of the loop over the records of file \<open>fl\<close>, from the checks to the chain of
  new records. \<open>basesrc\<close>, \<open>recstarttime\<close> and \<open>recendtime\<close> are the results of libmseed's
  \<open>msr_srcname\<close>, \<open>msr_starttime\<close> and \<open>msr_endtime\<close> for the record. The placement of the
  record in the trace group (\<open>mst_addmsrtogroup\<close>) and the merge of the new chain into the
  record map of its trace are not part of this model.\<close>

definition readfiles_record ::
  "hptime \<Rightarrow> hptime \<Rightarrow> (string \<Rightarrow> bool) option \<Rightarrow> (string \<Rightarrow> bool) option \<Rightarrow> char \<Rightarrow> char
     \<Rightarrow> nat \<Rightarrow> nat \<Rightarrow> MSRecord \<Rightarrow> string \<Rightarrow> hptime \<Rightarrow> hptime \<Rightarrow> Filelink list
     \<Rightarrow> (selection \<times> Record list \<times> Filelink list) option" where
  "readfiles_record g_starttime g_endtime match reject prunedata splitboundary
       fl fpos msr basesrc recstarttime recendtime files =
     (let srcname = basesrc @ ''_'' @ [msr_dataquality msr];
          sel = select_record g_starttime g_endtime match reject srcname recstarttime recendtime
      in if sel = Selected
         then
           (case split_record splitboundary (msr_samprate msr)
                   (window_trim prunedata g_starttime g_endtime
                      (new_record fl fpos msr recstarttime recendtime)) files of
              None \<Rightarrow> None
            | Some (chain, files') \<Rightarrow> Some (Selected, chain, files'))
         else Some (sel, [], files))"

text \<open>The parts of a split record agree in everything but the trim times.\<close>

definition same_record :: "Record \<Rightarrow> Record \<Rightarrow> bool" where
  "same_record a b = (flp a = flp b \<and> offset a = offset b \<and> reclen a = reclen b \<and>
     starttime a = starttime b \<and> endtime a = endtime b \<and> quality a = quality b)"

text \<open>A ten second record of 1 Hz data.\<close>

definition ex_msr :: MSRecord where
  "ex_msr = \<lparr>msr_reclen = 512, msr_dataquality = CHR ''D'', msr_samprate = 1,
     msr_starttime = 0, msr_numsamples = 11, msr_samplecnt = 11,
     msr_datasamples = [0, 1, 2, 3, 4, 5, 6, 7, 8, 9, 10]\<rparr>"

text \<open>The right-hand side of the equation of \<open>split_loop\<close>, for the induction rule of the loop.\<close>

abbreviation (input) split_body where
  "split_body loop splitboundary hpdelta chain rec files \<equiv>
     (case next_boundary splitboundary (effstarttime rec) of
        None \<Rightarrow> Some (chain @ [rec], files)
      | Some boundary \<Rightarrow>
          if endtime rec > boundary
          then loop splitboundary hpdelta
                 (chain @ [rec\<lparr>newend := boundary - hpdelta\<rparr>])
                 (rec\<lparr>newstart := boundary\<rparr>)
                 (upd_file (flp rec) (\<lambda>f. f\<lparr>recsplitcount := recsplitcount f + 1\<rparr>) files)
          else Some (chain @ [rec], files))"

section \<open>trimrecord\<close>

text \<open>The record codec of libmseed, which is not part of the repository, as two parameters.
  \<open>msr_unpack\<close> takes the buffer, the record length and the data flag and returns the
  unpacked record, or \<open>None\<close> for a return code other than \<open>MS_NOERROR\<close>. \<open>msr_pack\<close>
  returns the packed records that it hands to the record handler, in order, and its
  return value: the number of records, or -1 for an error.\<close>

record codec =
  msr_unpack :: "string \<Rightarrow> int \<Rightarrow> bool \<Rightarrow> MSRecord option"
  msr_pack :: "MSRecord \<Rightarrow> string list \<times> int"

text \<open>\<open>memcpy (recordbuf, record, reclen)\<close>: the first bytes of the buffer are replaced, the
  rest of the buffer stays.\<close>

definition record_handler :: "string \<Rightarrow> string \<Rightarrow> string" where
  "record_handler record buf = record @ drop (length record) buf"

text \<open>``Sanity check for new start/end times''.\<close>

definition newtimes_problem :: "Record \<Rightarrow> bool" where
  "newtimes_problem rec =
     ((newstart rec \<noteq> 0 \<and> newend rec \<noteq> 0 \<and> newstart rec \<ge> newend rec) \<or>
      (newstart rec \<noteq> 0 \<and> (newstart rec \<le> starttime rec \<or> newstart rec \<ge> endtime rec)) \<or>
      (newend rec \<noteq> 0 \<and> (newend rec \<ge> endtime rec \<or> newend rec \<le> starttime rec)))"

text \<open>``Remove samples from the beginning of the record''. The count is
  \<open>(int) (((newstart - starttime) / HPTMODULUS) * samprate + 0.5)\<close>, with an integer
  division of the tick difference. \<open>memmove\<close> moves the samples after the first
  \<open>trimsamples\<close> to the front of the sample buffer; for a count below 0 or above the
  number of samples the C code moves memory from outside the buffer, where the model
  drops nothing or everything.\<close>

definition trim_front :: "Record \<Rightarrow> MSRecord \<Rightarrow> MSRecord" where
  "trim_front rec msr =
     (if newstart rec \<noteq> 0
      then (let trimsamples =
                  c_trunc (of_int ((newstart rec - starttime rec) sdiv HPTMODULUS) * msr_samprate msr + 1 / 2)
            in msr\<lparr>msr_starttime := newstart rec,
                    msr_datasamples := drop (nat trimsamples) (msr_datasamples msr),
                    msr_numsamples := msr_numsamples msr - trimsamples,
                    msr_samplecnt := msr_samplecnt msr - trimsamples\<rparr>)
      else msr)"

text \<open>``Remove samples from the end of the record''.\<close>

definition trim_back :: "Record \<Rightarrow> MSRecord \<Rightarrow> MSRecord" where
  "trim_back rec msr =
     (if newend rec \<noteq> 0
      then (let trimsamples =
                  c_trunc (of_int ((endtime rec - newend rec) sdiv HPTMODULUS) * msr_samprate msr + 1 / 2)
            in msr\<lparr>msr_numsamples := msr_numsamples msr - trimsamples,
                    msr_samplecnt := msr_samplecnt msr - trimsamples\<rparr>)
      else msr)"

text \<open>\<open>trimrecord (rec, recordbuf)\<close>: the return code, the record buffer and the lines
  written to stderr. The function has two \<open>return -1\<close>: for a null argument, which does
  not occur, and for a record that does not unpack. The sanity check only prints. The
  return value of \<open>msr_pack\<close> is stored in \<open>packedrecords\<close> and not read.\<close>

definition trimrecord :: "codec \<Rightarrow> Record \<Rightarrow> string \<Rightarrow> int \<times> string \<times> string list" where
  "trimrecord cd rec buf =
     (let msgs = (if newtimes_problem rec
                  then [''ERROR: problem with new start/end record times, skipping.''] else [])
      in case msr_unpack cd buf (reclen rec) True of
           None \<Rightarrow> (- 1, buf, msgs @ [''ERROR: cannot unpacking Mini-SEED record''])
         | Some msr \<Rightarrow>
             (case msr_pack cd (trim_back rec (trim_front rec msr)) of
                (records, packedrecords) \<Rightarrow> (0, fold record_handler records buf, msgs)))"

section \<open>writetraces\<close>

text \<open>The options that \<open>writetraces\<close> reads. \<open>restampqind\<close> is the zero byte when no
  indicator is given, \<open>archiveroot\<close> is the chain of archive definitions.\<close>

record Options =
  outputfile :: "string option"
  restampqind :: char
  archiveroot :: "string list"
  replaceinput :: bool
  nobackups :: bool

datatype ostream = Stdout | Outfile string

text \<open>The world of the emitter: the files on disk with their contents, the paths that
  cannot be opened for writing, the paths to which nothing can be written (\<open>''-''\<close> for
  standard output), standard output and the lines on stderr, the global file list and
  record buffer, the records handed to \<open>ds_streamproc\<close> with the archive they went to, the
  two static counters of \<open>writetraces\<close> and its output stream \<open>ofp\<close>. Data written to a
  stream is in the file at once. Messages that are printed for a positive \<open>verbose\<close> only
  are left out.\<close>

record World =
  fs :: "string \<Rightarrow> string option"
  readonly :: "string list"
  full :: "string list"
  stdout :: string
  stderr :: "string list"
  filelist :: "Filelink list"
  recordbuf :: string
  archived :: "(string \<times> MSRecord) list"
  totalrecsout :: int
  totalbytesout :: int
  ofp :: "ostream option"

text \<open>An iteration of a loop of \<open>writetraces\<close> either sets \<open>stopflag\<close> or goes on.\<close>

datatype outcome = Stop World | Cont World

definition complain :: "string \<Rightarrow> World \<Rightarrow> World" where
  "complain msg w = w\<lparr>stderr := stderr w @ [msg]\<rparr>"

text \<open>``Open the output file if specified'': append once something has been written by an
  earlier call, overwrite otherwise. \<open>None\<close> stands for the \<open>return\<close> after a failed
  \<open>fopen\<close>.\<close>

definition open_output :: "Options \<Rightarrow> World \<Rightarrow> World option" where
  "open_output opts w =
     (case outputfile opts of
        None \<Rightarrow> Some (w\<lparr>ofp := None\<rparr>)
      | Some name \<Rightarrow>
          if name = ''-'' then Some (w\<lparr>ofp := Some Stdout\<rparr>)
          else if name \<in> set (readonly w) then None
          else Some (w\<lparr>ofp := Some (Outfile name),
                       fs := (fs w)(name \<mapsto>
                               (if totalbytesout w = 0 then []
                                else (case fs w name of None \<Rightarrow> [] | Some old \<Rightarrow> old)))\<rparr>))"

text \<open>\<open>fwrite\<close> of a block to a named file; \<open>None\<close> when the block is not written.\<close>

definition fwrite :: "string \<Rightarrow> string \<Rightarrow> World \<Rightarrow> World option" where
  "fwrite name block w =
     (if name \<in> set (full w) then None
      else Some (w\<lparr>fs := (fs w)(name \<mapsto> (case fs w name of None \<Rightarrow> [] | Some old \<Rightarrow> old) @ block)\<rparr>))"

text \<open>The file of a record. \<open>flp\<close> is a pointer to an entry of the file list that lives
  as long as the record.\<close>

definition file_of :: "World \<Rightarrow> Record \<Rightarrow> Filelink" where
  "file_of w rec = filelist w ! flp rec"

text \<open>From ``Make sure the record buffer is large enough'' to ``Read record into
  buffer''. The length is compared with \<open>sizeof(recordbuf)\<close> as an unsigned number, so a
  negative length is too large as well. The file is opened on first use. Seeking in a file of this world does not
  fail. A read of a block that ends beyond the end of the file fails.\<close>

definition read_record :: "Record \<Rightarrow> World \<Rightarrow> outcome" where
  "read_record rec w =
     (if reclen rec < 0 \<or> reclen rec > 16384
      then Stop (complain ''ERROR Record length larger than buffer'' w)
      else
        (case fs w (infilename (file_of w rec)) of
           None \<Rightarrow>
             Stop (complain (if infp (file_of w rec) then ''ERROR reading'' else ''ERROR opening for reading'') w)
         | Some content \<Rightarrow>
             (let w1 = w\<lparr>filelist := upd_file (flp rec) (\<lambda>f. f\<lparr>infp := True\<rparr>) (filelist w)\<rparr>
              in if offset rec + nat (reclen rec) \<le> length content
                 then Cont (w1\<lparr>recordbuf :=
                                   record_handler (take (nat (reclen rec)) (drop (offset rec) content))
                                     (recordbuf w1)\<rparr>)
                 else Stop (complain ''ERROR reading'' w1))))"

text \<open>``Trim data from the record if new start or end times are specifed''. The flag tells
  that \<open>trimrecord\<close> returned a value other than 0, after which the loop goes to the next
  record.\<close>

definition trim_stage :: "codec \<Rightarrow> Record \<Rightarrow> World \<Rightarrow> bool \<times> World" where
  "trim_stage cd rec w =
     (if newstart rec = 0 \<and> newend rec = 0 then (False, w)
      else (case trimrecord cd rec (recordbuf w) of
              (rc, buf, msgs) \<Rightarrow> (rc \<noteq> 0, w\<lparr>recordbuf := buf, stderr := stderr w @ msgs\<rparr>)))"

text \<open>``Re-stamp quality indicator if specified''.\<close>

definition restamp :: "Options \<Rightarrow> World \<Rightarrow> World" where
  "restamp opts w =
     (if restampqind opts = CHR 0x00 then w
      else w\<lparr>recordbuf := (recordbuf w)[6 := restampqind opts]\<rparr>)"

text \<open>The block that the \<open>fwrite\<close> calls take from the record buffer.\<close>

definition outblock :: "Record \<Rightarrow> World \<Rightarrow> string" where
  "outblock rec w = take (nat (reclen rec)) (recordbuf w)"

text \<open>``Write to a single output file if specified''.\<close>

definition write_single :: "Record \<Rightarrow> World \<Rightarrow> outcome" where
  "write_single rec w =
     (case ofp w of
        None \<Rightarrow> Cont w
      | Some Stdout \<Rightarrow>
          if ''-'' \<in> set (full w) then Stop (complain ''ERROR writing to output file'' w)
          else Cont (w\<lparr>stdout := stdout w @ outblock rec w\<rparr>)
      | Some (Outfile name) \<Rightarrow>
          (case fwrite name (outblock rec w) w of
             None \<Rightarrow> Stop (complain ''ERROR writing to output file'' w)
           | Some w' \<Rightarrow> Cont w'))"

text \<open>``Write to Archive(s) if specified''. A record that does not unpack is reported and
  the loop goes on.\<close>

definition write_archives :: "codec \<Rightarrow> Options \<Rightarrow> Record \<Rightarrow> World \<Rightarrow> World" where
  "write_archives cd opts rec w =
     (if archiveroot opts = [] then w
      else (case msr_unpack cd (recordbuf w) (reclen rec) False of
              None \<Rightarrow> complain ''ERROR unpacking Mini-SEED, cannot write to archive'' w
            | Some msr \<Rightarrow> w\<lparr>archived := archived w @ map (\<lambda>arch. (arch, msr)) (archiveroot opts)\<rparr>))"

text \<open>``Open original file for output if replacing input and write''. Without an output
  file name (\<open>readfiles\<close> sets it when the input is replaced) nothing can be opened.\<close>

definition write_replace :: "Options \<Rightarrow> Record \<Rightarrow> World \<Rightarrow> outcome" where
  "write_replace opts rec w =
     (if replaceinput opts
      then
        (case outfilename (file_of w rec) of
           None \<Rightarrow> Stop (complain ''ERROR opening for writing'' w)
         | Some name \<Rightarrow>
             if \<not> outfp (file_of w rec) \<and> name \<in> set (readonly w)
             then Stop (complain ''ERROR opening for writing'' w)
             else
               (let w1 = (if outfp (file_of w rec) then w
                          else w\<lparr>filelist := upd_file (flp rec) (\<lambda>f. f\<lparr>outfp := True\<rparr>) (filelist w),
                                 fs := (fs w)(name \<mapsto> [])\<rparr>)
                in case fwrite name (outblock rec w1) w1 of
                     None \<Rightarrow> Stop (complain ''ERROR writing'' w1)
                   | Some w2 \<Rightarrow> Cont w2))
      else Cont w)"

text \<open>``Update file entry time stamps and counts''.\<close>

definition account :: "MSTrace \<Rightarrow> Record \<Rightarrow> World \<Rightarrow> World" where
  "account mst rec w =
     w\<lparr>filelist :=
         upd_file (flp rec)
           (\<lambda>f. (let f1 = (if earliest f = 0 \<or> earliest f > starttime rec
                            then f\<lparr>earliest := starttime rec\<rparr> else f);
                      f2 = (if latest f1 = 0 \<or> latest f1 < endtime rec
                            then f1\<lparr>latest := endtime rec + hpdelta_of (samprate mst)\<rparr> else f1)
                  in f2\<lparr>byteswritten := byteswritten f2 + reclen rec\<rparr>))
           (filelist w),
       totalrecsout := totalrecsout w + 1,
       totalbytesout := totalbytesout w + reclen rec\<rparr>"

text \<open>The body of the loop over the records of a trace.\<close>

definition emit_record :: "codec \<Rightarrow> Options \<Rightarrow> MSTrace \<Rightarrow> Record \<Rightarrow> World \<Rightarrow> outcome" where
  "emit_record cd opts mst rec w =
     (if reclen rec = 0 then Cont w
      else
        (case read_record rec w of
           Stop w' \<Rightarrow> Stop w'
         | Cont w1 \<Rightarrow>
             (case trim_stage cd rec w1 of
                (skip, w2) \<Rightarrow>
                  if skip then Cont w2
                  else
                    (case write_single rec (restamp opts w2) of
                       Stop w' \<Rightarrow> Stop w'
                     | Cont w3 \<Rightarrow>
                         (case write_replace opts rec (write_archives cd opts rec w3) of
                            Stop w' \<Rightarrow> Stop w'
                          | Cont w4 \<Rightarrow> Cont (account mst rec w4))))))"

fun emit_records :: "codec \<Rightarrow> Options \<Rightarrow> MSTrace \<Rightarrow> Record list \<Rightarrow> World \<Rightarrow> outcome" where
  "emit_records cd opts mst [] w = Cont w"
| "emit_records cd opts mst (rec # recs) w =
     (case emit_record cd opts mst rec w of
        Stop w' \<Rightarrow> Stop w'
      | Cont w' \<Rightarrow> emit_records cd opts mst recs w')"

fun emit_traces :: "codec \<Rightarrow> Options \<Rightarrow> MSTrace list \<Rightarrow> World \<Rightarrow> outcome" where
  "emit_traces cd opts [] w = Cont w"
| "emit_traces cd opts (mst # msts) w =
     (case emit_records cd opts mst (recordmap mst) w of
        Stop w' \<Rightarrow> Stop w'
      | Cont w' \<Rightarrow> emit_traces cd opts msts w')"

definition world_of :: "outcome \<Rightarrow> World" where
  "world_of out = (case out of Stop w \<Rightarrow> w | Cont w \<Rightarrow> w)"

text \<open>``Close all open input & output files and remove backups if requested'': the loop
  over the file list. \<open>remove\<close> is the value of \<open>nobackups && ! ofp\<close>; \<open>unlink\<close> fails for a
  name that is not on disk.\<close>

fun close_files ::
  "bool \<Rightarrow> Filelink list \<Rightarrow> (string \<Rightarrow> string option) \<times> string list
     \<Rightarrow> Filelink list \<times> (string \<Rightarrow> string option) \<times> string list" where
  "close_files remove [] (fsys, msgs) = ([], fsys, msgs)"
| "close_files remove (f # files) (fsys, msgs) =
     (case close_files remove files
             (if remove
              then (if fsys (infilename f) = None then (fsys, msgs @ [''ERROR removing''])
                    else (fsys(infilename f := None), msgs))
              else (fsys, msgs)) of
        (files', fsys', msgs') \<Rightarrow> (f\<lparr>infp := False, outfp := False\<rparr> # files', fsys', msgs'))"

text \<open>\<open>writetraces\<close>. The function returns at once for a group without traces and when
  the output file cannot be opened.\<close>

definition writetraces :: "codec \<Rightarrow> Options \<Rightarrow> MSTrace list \<Rightarrow> World \<Rightarrow> World" where
  "writetraces cd opts traces w =
     (if traces = [] then w
      else
        (case open_output opts w of
           None \<Rightarrow> complain ''ERROR Cannot open output file'' w
         | Some w0 \<Rightarrow>
             (let w1 = world_of (emit_traces cd opts traces w0)
              in case close_files (nobackups opts \<and> ofp w1 = None) (filelist w1) (fs w1, stderr w1) of
                   (files', fsys', msgs') \<Rightarrow>
                     w1\<lparr>filelist := files', fs := fsys', stderr := msgs', ofp := None\<rparr>)))"

text \<open>The start of the loop over the file list in \<open>readfiles\<close>: ``Add '.orig' suffix to
  input file if it will be replaced''. \<open>None\<close> stands for the \<open>return 1\<close> after a failed
  \<open>rename\<close>.\<close>

definition rename_input :: "bool \<Rightarrow> Filelink \<Rightarrow> (string \<Rightarrow> string option)
     \<Rightarrow> (Filelink \<times> (string \<Rightarrow> string option)) option" where
  "rename_input replace f fsys =
     (if replace
      then (case fsys (infilename f) of
              None \<Rightarrow> None
            | Some content \<Rightarrow>
                Some (f\<lparr>outfilename := Some (infilename f), infilename := infilename f @ ''.orig''\<rparr>,
                      fsys(infilename f := None, infilename f @ ''.orig'' \<mapsto> content)))
      else Some (f, fsys))"

section \<open>Example inputs of the emitter\<close>

text \<open>A codec for the examples: a record is its samples, one byte each, at 1 Hz from
  tick 0; packing writes the samples that are left and fills the record with dots.\<close>

definition ex_unpack :: "string \<Rightarrow> int \<Rightarrow> bool \<Rightarrow> MSRecord option" where
  "ex_unpack buf n dataflag =
     Some \<lparr>msr_reclen = n, msr_dataquality = CHR ''D'', msr_samprate = 1, msr_starttime = 0,
           msr_numsamples = n, msr_samplecnt = n,
           msr_datasamples = map of_char (take (nat n) buf)\<rparr>"

definition ex_pack :: "MSRecord \<Rightarrow> string list \<times> int" where
  "ex_pack msr =
     ([map char_of (take (nat (msr_numsamples msr)) (msr_datasamples msr)) @
       replicate (nat (msr_reclen msr) - nat (msr_numsamples msr)) (CHR ''.'')], 1)"

definition ex_codec :: codec where
  "ex_codec = \<lparr>msr_unpack = ex_unpack, msr_pack = ex_pack\<rparr>"

text \<open>The same codec with a packer that fails: no record reaches the handler, the return
  value is -1.\<close>

definition ex_codec_nopack :: codec where
  "ex_codec_nopack = \<lparr>msr_unpack = ex_unpack, msr_pack = (\<lambda>msr. ([], - 1))\<rparr>"

text \<open>One input file of one record of eleven samples, from 0 s to 10 s, and the world
  before \<open>writetraces\<close> runs for the first time.\<close>

definition ex_world :: World where
  "ex_world = \<lparr>fs = [''a.mseed'' \<mapsto> ''0123456789A''], readonly = [], full = [],
     stdout = [], stderr = [], filelist = [ex_file ''a.mseed''],
     recordbuf = replicate 16384 (CHR 0x00), archived = [],
     totalrecsout = 0, totalbytesout = 0, ofp = None\<rparr>"

definition ex_emit_rec :: "hptime \<Rightarrow> hptime \<Rightarrow> Record" where
  "ex_emit_rec ns ne = \<lparr>flp = 0, offset = 0, reclen = 11, starttime = 0, endtime = 10000000,
     quality = CHR ''D'', newstart = ns, newend = ne\<rparr>"

definition ex_opts :: Options where
  "ex_opts = \<lparr>outputfile = Some ''out.mseed'', restampqind = CHR 0x00, archiveroot = [],
     replaceinput = False, nobackups = False\<rparr>"

section \<open>Auxiliary notions for the emitter\<close>

text \<open>What every step of the emission loop keeps: the names of the input files in the
  file list, the files that are on disk, and the output stream.\<close>

definition keeps :: "World \<Rightarrow> World \<Rightarrow> bool" where
  "keeps w w' = (map infilename (filelist w') = map infilename (filelist w) \<and>
     (\<forall>p. fs w p \<noteq> None \<longrightarrow> fs w' p \<noteq> None) \<and> ofp w' = ofp w)"

text \<open>The example file after \<open>readfiles\<close> has renamed it for replacement, and the options
  -R -nb -o out.mseed.\<close>

definition ex_world_orig :: World where
  "ex_world_orig = ex_world\<lparr>fs := [''a.mseed.orig'' \<mapsto> ''0123456789A''],
     filelist := [(ex_file ''a.mseed.orig'')\<lparr>outfilename := Some ''a.mseed''\<rparr>]\<rparr>"

definition ex_opts_replace :: Options where
  "ex_opts_replace = ex_opts\<lparr>replaceinput := True, nobackups := True\<rparr>"

section \<open>setofilelimit and processpod\<close>

text \<open>The open file limit of the process as the operating system keeps it: the soft limit
  \<open>rlim_cur\<close> and the hard limit \<open>rlim_max\<close>, of the unsigned 64-bit type \<open>rlim_t\<close>, and
  whether \<open>getrlimit\<close> fails. \<open>setrlimit\<close> is given the limits that \<open>getrlimit\<close> returned with
  a new soft limit; it fails when the soft limit is above the hard limit.\<close>

record oslimit =
  getrlimit_fails :: bool
  rlim_cur :: "64 word"
  rlim_max :: "64 word"

definition setrlimit :: "64 word \<Rightarrow> oslimit \<Rightarrow> oslimit option" where
  "setrlimit cur os = (if cur \<le> rlim_max os then Some (os\<lparr>rlim_cur := cur\<rparr>) else None)"

text \<open>\<open>setofilelimit (limit)\<close>: the result is the return value, a C \<open>int\<close>, with the limits
  after the call. The comparison \<open>rlim.rlim_cur < limit\<close> converts \<open>limit\<close> to \<open>rlim_t\<close>;
  the return value is the soft limit converted to \<open>int\<close>.\<close>

definition setofilelimit :: "32 word \<Rightarrow> oslimit \<Rightarrow> 32 word \<times> oslimit" where
  "setofilelimit limit os =
     (if getrlimit_fails os then (- 1, os)
      else if rlim_cur os < scast limit
      then (case setrlimit (scast limit) os of
              None \<Rightarrow> (- 1, os)
            | Some os' \<Rightarrow> (ucast (rlim_cur os'), os'))
      else (ucast (rlim_cur os), os))"

text \<open>POD request records (struct \<open>ReqRec_s\<close>), the fields that the grouping reads.\<close>

record ReqRec =
  rr_network :: string
  rr_station :: string
  rr_location :: string
  rr_channel :: string
  rr_filename :: string
  pruned :: bool

definition same_channel :: "ReqRec \<Rightarrow> ReqRec \<Rightarrow> bool" where
  "same_channel a b = (rr_network a = rr_network b \<and> rr_station a = rr_station b \<and>
     rr_location a = rr_location b \<and> rr_channel a = rr_channel b)"

text \<open>The request records whose files are added to the file list for \<open>hound\<close>: \<open>hound\<close>
  itself and, in the order of the chain, every other record that is not yet pruned and
  names the same channel.\<close>

definition group_of :: "ReqRec list \<Rightarrow> nat \<Rightarrow> nat list" where
  "group_of reqs hound =
     hound # filter (\<lambda>fox. fox \<noteq> hound \<and> \<not> pruned (reqs ! fox) \<and>
                          same_channel (reqs ! hound) (reqs ! fox))
               [0 ..< length reqs]"

text \<open>The data file name, \<open>"%s/%s/%s"\<close> of the data directory, the station and the file
  name of the request record.\<close>

definition datafile :: "string \<Rightarrow> ReqRec \<Rightarrow> string" where
  "datafile poddatadir rr = poddatadir @ ''/'' @ rr_station rr @ ''/'' @ rr_filename rr"

definition mark_pruned :: "nat list \<Rightarrow> ReqRec list \<Rightarrow> ReqRec list" where
  "mark_pruned members reqs = fold (\<lambda>i rs. rs[i := (rs ! i)\<lparr>pruned := True\<rparr>]) members reqs"

text \<open>One round of the \<open>while ( hound )\<close> loop of \<open>processpod\<close>. \<open>process\<close> stands for the
  statements from \<open>readfiles ()\<close> and \<open>processtraces ()\<close> to the update of the request
  records, applied to the files of the group; \<open>w\<close> is whatever they change. When
  \<open>setofilelimit\<close> returns -1 the file list is freed and the loop goes to the next request
  record.\<close>

definition pod_group ::
  "(string list \<Rightarrow> 'w \<Rightarrow> 'w) \<Rightarrow> string \<Rightarrow> nat \<Rightarrow> ReqRec list \<times> oslimit \<times> 'w
     \<Rightarrow> ReqRec list \<times> oslimit \<times> 'w" where
  "pod_group process poddatadir hound = (\<lambda>(reqs, os, w).
     if pruned (reqs ! hound) then (reqs, os, w)
     else
       (let members = group_of reqs hound;
            files = map (\<lambda>i. datafile poddatadir (reqs ! i)) members;
            filecount = length members
        in case setofilelimit (of_nat (filecount * 2 + 20)) os of
             (rc, os') \<Rightarrow>
               if rc = - 1 then (mark_pruned members reqs, os', w)
               else (mark_pruned members reqs, os', process files w)))"

definition processpod ::
  "(string list \<Rightarrow> 'w \<Rightarrow> 'w) \<Rightarrow> string \<Rightarrow> ReqRec list \<times> oslimit \<times> 'w
     \<Rightarrow> ReqRec list \<times> oslimit \<times> 'w" where
  "processpod process poddatadir st =
     fold (pod_group process poddatadir) [0 ..< length (fst st)] st"

text \<open>The two branches of \<open>main\<close>: the POD structure, or the files of the command line.\<close>

definition main_body ::
  "(string list \<Rightarrow> 'w \<Rightarrow> 'w) \<Rightarrow> bool \<Rightarrow> string \<Rightarrow> string list \<Rightarrow> ReqRec list \<times> oslimit \<times> 'w
     \<Rightarrow> ReqRec list \<times> oslimit \<times> 'w" where
  "main_body process pod poddatadir files st =
     (if pod then processpod process poddatadir st
      else (case st of (reqs, os, w) \<Rightarrow> (reqs, os, process files w)))"

text \<open>A request record, and a process whose soft and hard limit are 10 open files.\<close>

definition ex_req :: ReqRec where
  "ex_req = \<lparr>rr_network = ''IU'', rr_station = ''ANMO'', rr_location = ''00'', rr_channel = ''BHZ'',
     rr_filename = ''a.mseed'', pruned = False\<rparr>"

definition ex_os :: oslimit where
  "ex_os = \<lparr>getrlimit_fails = False, rlim_cur = 10, rlim_max = 10\<rparr>"

section \<open>Properties of trimtraces\<close>

lemma upd_file_length [simp]: "length (upd_file i g files) = length files"
  by (simp add: upd_file_def)

lemma upd_file_nth: "f < length files \<Longrightarrow> upd_file i g files ! f = (if f = i then g (files ! f) else files ! f)"
  by (simp add: upd_file_def)


lemma overlapped_reclen [simp]: "overlapped (rec\<lparr>reclen := n\<rparr>) = overlapped rec"
  by (rule ext) (simp add: overlapped_def effstarttime_def effendtime_def)


lemma hits_reclen [simp]: "hits ts (rec\<lparr>reclen := n\<rparr>) = hits ts rec"
  by (simp add: hits_def)





lemma rm_files_length [simp]: "length (rm_files ts recs files) = length files"
  by (induction recs arbitrary: files) simp_all





























lemma trim_compare_sample_eq:
  assumes "reclen rec \<noteq> 0" and "\<not> overlapped rec tsp"
  shows "trim_compare (CHR ''s'') hptrace d tsp (rec, files, mc) =
      (if crosses rec (mst_endtime hptrace) then set_newstart (mst_endtime hptrace + d) else id)
        ((if crosses rec (mst_starttime hptrace) then set_newend (mst_starttime hptrace - d) else id)
           (rec, files, mc))"
  using assms by (simp add: trim_compare_def Let_def)

lemma fst_trim_compare:
  "fst (trim_compare prunedata hptrace d tsp (rec, files, mc)) = rec_step prunedata hptrace d tsp rec"
  by (simp add: rec_step_def trim_compare_def Let_def mark_removed_def set_newend_def set_newstart_def)

lemma fst_fold_trim_compare:
  "fst (fold (trim_compare prunedata hptrace d) ts (rec, files, mc)) =
     fold (rec_step prunedata hptrace d) ts rec"
proof (induction ts arbitrary: rec files mc)
  case Nil
  show ?case by simp
next
  case (Cons t ts)
  obtain rec' files' mc' where s: "trim_compare prunedata hptrace d t (rec, files, mc) = (rec', files', mc')"
    by (cases "trim_compare prunedata hptrace d t (rec, files, mc)")
  with fst_trim_compare [of prunedata hptrace d t rec files mc]
  have "rec' = rec_step prunedata hptrace d t rec" by simp
  with s Cons.IH [of rec' files' mc'] show ?case by simp
qed

lemma fst_trim_records:
  "fst (trim_records prunedata hptrace d ts recs files mc) =
     map (fold (rec_step prunedata hptrace d) ts) recs"
proof (induction recs arbitrary: files mc)
  case Nil
  show ?case by simp
next
  case (Cons rec recs)
  obtain rec' files' mc' where s:
    "fold (trim_compare prunedata hptrace d) ts (rec, files, mc) = (rec', files', mc')"
    by (cases "fold (trim_compare prunedata hptrace d) ts (rec, files, mc)")
  with fst_fold_trim_compare [of prunedata hptrace d ts rec files mc]
  have r: "rec' = fold (rec_step prunedata hptrace d) ts rec" by simp
  obtain recs' files'' mc'' where t:
    "trim_records prunedata hptrace d ts recs files' mc' = (recs', files'', mc'')"
    by (cases "trim_records prunedata hptrace d ts recs files' mc'")
  with Cons.IH [of files' mc'] have "recs' = map (fold (rec_step prunedata hptrace d) ts) recs"
    by simp
  with s r t show ?case by simp
qed

lemma rec_step_newend_kept:
  assumes "reclen rec = 0 \<or> newend rec = mst_starttime hptrace - d"
  shows "reclen (rec_step prunedata hptrace d tsp rec) = 0 \<or>
         newend (rec_step prunedata hptrace d tsp rec) = mst_starttime hptrace - d"
  using assms
  by (auto simp: rec_step_def trim_compare_def Let_def mark_removed_def set_newend_def set_newstart_def)

lemma rec_step_newstart_kept:
  assumes "reclen rec = 0 \<or> newstart rec = mst_endtime hptrace + d"
  shows "reclen (rec_step prunedata hptrace d tsp rec) = 0 \<or>
         newstart (rec_step prunedata hptrace d tsp rec) = mst_endtime hptrace + d"
  using assms
  by (auto simp: rec_step_def trim_compare_def Let_def mark_removed_def set_newend_def set_newstart_def)

lemma fold_rec_step_newend_kept:
  assumes "reclen rec = 0 \<or> newend rec = mst_starttime hptrace - d"
  shows "reclen (fold (rec_step prunedata hptrace d) ts rec) = 0 \<or>
         newend (fold (rec_step prunedata hptrace d) ts rec) = mst_starttime hptrace - d"
  using assms by (induction ts arbitrary: rec) (simp_all add: rec_step_newend_kept)

lemma fold_rec_step_newstart_kept:
  assumes "reclen rec = 0 \<or> newstart rec = mst_endtime hptrace + d"
  shows "reclen (fold (rec_step prunedata hptrace d) ts rec) = 0 \<or>
         newstart (fold (rec_step prunedata hptrace d) ts rec) = mst_endtime hptrace + d"
  using assms by (induction ts arbitrary: rec) (simp_all add: rec_step_newstart_kept)

lemma rec_step_first:
  "(crosses rec (mst_starttime hptrace) \<longrightarrow>
      reclen (rec_step (CHR ''s'') hptrace d tsp rec) = 0 \<or>
      newend (rec_step (CHR ''s'') hptrace d tsp rec) = mst_starttime hptrace - d) \<and>
   (crosses rec (mst_endtime hptrace) \<longrightarrow>
      reclen (rec_step (CHR ''s'') hptrace d tsp rec) = 0 \<or>
      newstart (rec_step (CHR ''s'') hptrace d tsp rec) = mst_endtime hptrace + d)"
  by (auto simp: rec_step_def trim_compare_def Let_def mark_removed_def set_newend_def set_newstart_def)

lemma trimtraces_sample_trims:
  assumes "coverage timetol hptrace \<noteq> []" and "i < length (recordmap lptrace)"
  shows "(crosses (recordmap lptrace ! i) (mst_starttime hptrace) \<longrightarrow>
            reclen (fst (trimtraces (CHR ''s'') timetol lptrace hptrace files) ! i) = 0 \<or>
            newend (fst (trimtraces (CHR ''s'') timetol lptrace hptrace files) ! i) =
              mst_starttime hptrace - hpdelta_of (samprate hptrace)) \<and>
         (crosses (recordmap lptrace ! i) (mst_endtime hptrace) \<longrightarrow>
            reclen (fst (trimtraces (CHR ''s'') timetol lptrace hptrace files) ! i) = 0 \<or>
            newstart (fst (trimtraces (CHR ''s'') timetol lptrace hptrace files) ! i) =
              mst_endtime hptrace + hpdelta_of (samprate hptrace))"
proof -
  let ?d = "hpdelta_of (samprate hptrace)"
  let ?rec = "recordmap lptrace ! i"
  from assms(1) obtain t ts where c: "coverage timetol hptrace = t # ts"
    by (cases "coverage timetol hptrace") auto
  have r: "fst (trimtraces (CHR ''s'') timetol lptrace hptrace files) ! i =
      fold (rec_step (CHR ''s'') hptrace ?d) ts (rec_step (CHR ''s'') hptrace ?d t ?rec)"
    using assms(2) by (simp add: trimtraces_def fst_trim_records c)
  show ?thesis
    unfolding r
    using rec_step_first [of ?rec hptrace ?d t]
      fold_rec_step_newend_kept [of "rec_step (CHR ''s'') hptrace ?d t ?rec" hptrace ?d "CHR ''s''" ts]
      fold_rec_step_newstart_kept [of "rec_step (CHR ''s'') hptrace ?d t ?rec" hptrace ?d "CHR ''s''" ts]
    by blast
qed

text \<open>
  C4. Sample level pruning. In one comparison of a record of the lower priority trace with
  a segment, a record that is not dropped (its length is not 0 and the segment does not
  contain it) gets \<open>newend = HP.start - hpdelta\<close> when its effective window crosses the
  start time of the higher priority trace and \<open>newstart = HP.end + hpdelta\<close> when it
  crosses the end time; the trimmed counter of its file goes up once for each of the two;
  \<open>hpdelta\<close> is the sample period of the higher priority trace. The outcome is the same
  for every segment that does not contain the record: the bounds of the segment are not
  used, only the start and end time of the trace. For a call of \<open>trimtraces\<close> on a higher
  priority trace with coverage: a record whose effective window crosses the start time of
  that trace is dropped or ends up with \<open>newend = HP.start - hpdelta\<close>, and a record whose
  effective window crosses the end time is dropped or ends up with
  \<open>newstart = HP.end + hpdelta\<close>.
\<close>

theorem trim_compare_sample_trims:
  "(reclen rec \<noteq> 0 \<and> \<not> overlapped rec tsp \<and> flp rec < length files \<longrightarrow>
      (case trim_compare (CHR ''s'') hptrace (hpdelta_of (samprate hptrace)) tsp (rec, files, mc) of
         (rec', files', mc') \<Rightarrow>
           newend rec' =
             (if crosses rec (mst_starttime hptrace)
              then mst_starttime hptrace - hpdelta_of (samprate hptrace) else newend rec) \<and>
           newstart rec' =
             (if crosses rec (mst_endtime hptrace)
              then mst_endtime hptrace + hpdelta_of (samprate hptrace) else newstart rec) \<and>
           rectrimcount (files' ! flp rec) = rectrimcount (files ! flp rec) +
             (if crosses rec (mst_starttime hptrace) then 1 else 0) +
             (if crosses rec (mst_endtime hptrace) then 1 else 0) \<and>
           reclen rec' = reclen rec \<and>
           (\<forall>tsp'. \<not> overlapped rec tsp' \<longrightarrow>
              trim_compare (CHR ''s'') hptrace (hpdelta_of (samprate hptrace)) tsp' (rec, files, mc) =
                (rec', files', mc')))) \<and>
   (coverage timetol hptrace \<noteq> [] \<and> i < length (recordmap lptrace) \<longrightarrow>
      (crosses (recordmap lptrace ! i) (mst_starttime hptrace) \<longrightarrow>
         reclen (fst (trimtraces (CHR ''s'') timetol lptrace hptrace files) ! i) = 0 \<or>
         newend (fst (trimtraces (CHR ''s'') timetol lptrace hptrace files) ! i) =
           mst_starttime hptrace - hpdelta_of (samprate hptrace)) \<and>
      (crosses (recordmap lptrace ! i) (mst_endtime hptrace) \<longrightarrow>
         reclen (fst (trimtraces (CHR ''s'') timetol lptrace hptrace files) ! i) = 0 \<or>
         newstart (fst (trimtraces (CHR ''s'') timetol lptrace hptrace files) ! i) =
           mst_endtime hptrace + hpdelta_of (samprate hptrace)))"
proof (intro conjI impI)
  assume a: "reclen rec \<noteq> 0 \<and> \<not> overlapped rec tsp \<and> flp rec < length files"
  then have r: "reclen rec \<noteq> 0" and o: "\<not> overlapped rec tsp" and f: "flp rec < length files"
    by simp_all
  show "case trim_compare (CHR ''s'') hptrace (hpdelta_of (samprate hptrace)) tsp (rec, files, mc) of
         (rec', files', mc') \<Rightarrow>
           newend rec' =
             (if crosses rec (mst_starttime hptrace)
              then mst_starttime hptrace - hpdelta_of (samprate hptrace) else newend rec) \<and>
           newstart rec' =
             (if crosses rec (mst_endtime hptrace)
              then mst_endtime hptrace + hpdelta_of (samprate hptrace) else newstart rec) \<and>
           rectrimcount (files' ! flp rec) = rectrimcount (files ! flp rec) +
             (if crosses rec (mst_starttime hptrace) then 1 else 0) +
             (if crosses rec (mst_endtime hptrace) then 1 else 0) \<and>
           reclen rec' = reclen rec \<and>
           (\<forall>tsp'. \<not> overlapped rec tsp' \<longrightarrow>
              trim_compare (CHR ''s'') hptrace (hpdelta_of (samprate hptrace)) tsp' (rec, files, mc) =
                (rec', files', mc'))"
    using f
    by (simp add: trim_compare_sample_eq [OF r] o set_newend_def set_newstart_def upd_file_nth)
next
  assume "coverage timetol hptrace \<noteq> [] \<and> i < length (recordmap lptrace)"
    and "crosses (recordmap lptrace ! i) (mst_starttime hptrace)"
  then show "reclen (fst (trimtraces (CHR ''s'') timetol lptrace hptrace files) ! i) = 0 \<or>
         newend (fst (trimtraces (CHR ''s'') timetol lptrace hptrace files) ! i) =
           mst_starttime hptrace - hpdelta_of (samprate hptrace)"
    using trimtraces_sample_trims [of timetol hptrace i lptrace files] by blast
next
  assume "coverage timetol hptrace \<noteq> [] \<and> i < length (recordmap lptrace)"
    and "crosses (recordmap lptrace ! i) (mst_endtime hptrace)"
  then show "reclen (fst (trimtraces (CHR ''s'') timetol lptrace hptrace files) ! i) = 0 \<or>
         newstart (fst (trimtraces (CHR ''s'') timetol lptrace hptrace files) ! i) =
           mst_endtime hptrace + hpdelta_of (samprate hptrace)"
    using trimtraces_sample_trims [of timetol hptrace i lptrace files] by blast
qed

lemma ex_HP_coverage: "coverage (- 1) ex_HP = [ex_seg 10000000 20000000]"
  by code_simp

lemma ex_LP_trimmed:
  "map newstart (fst (trimtraces (CHR ''s'') (- 1)
      (ex_trace (CHR ''D'') 18000000 25000000 [ex_rec 1 18000000 25000000]) ex_HP ex_files)) = [21000000]"
  by code_simp

theorem trim_compare_sample_trims_witness:
  "reclen (ex_rec 1 18000000 25000000) \<noteq> 0 \<and>
   \<not> overlapped (ex_rec 1 18000000 25000000) (ex_seg 10000000 20000000) \<and>
   flp (ex_rec 1 18000000 25000000) < length ex_files \<and>
   crosses (ex_rec 1 18000000 25000000) (mst_endtime ex_HP) \<and>
   \<not> crosses (ex_rec 1 18000000 25000000) (mst_starttime ex_HP) \<and>
   newstart (fst (trim_compare (CHR ''s'') ex_HP (hpdelta_of (samprate ex_HP)) (ex_seg 10000000 20000000)
                    (ex_rec 1 18000000 25000000, ex_files, 0))) = 21000000 \<and>
   newend (fst (trim_compare (CHR ''s'') ex_HP (hpdelta_of (samprate ex_HP)) (ex_seg 10000000 20000000)
                    (ex_rec 1 18000000 25000000, ex_files, 0))) = 0 \<and>
   coverage (- 1) ex_HP \<noteq> [] \<and>
   (reclen (fst (trimtraces (CHR ''s'') (- 1)
        (ex_trace (CHR ''D'') 18000000 25000000 [ex_rec 1 18000000 25000000]) ex_HP ex_files) ! 0) = 0 \<or>
    newstart (fst (trimtraces (CHR ''s'') (- 1)
        (ex_trace (CHR ''D'') 18000000 25000000 [ex_rec 1 18000000 25000000]) ex_HP ex_files) ! 0) =
      21000000)"
proof -
  let ?lp = "ex_trace (CHR ''D'') 18000000 25000000 [ex_rec 1 18000000 25000000]"
  have r: "reclen (ex_rec 1 18000000 25000000) \<noteq> 0" by (simp add: ex_rec_def)
  have o: "\<not> overlapped (ex_rec 1 18000000 25000000) (ex_seg 10000000 20000000)"
    by (simp add: overlapped_def ex_rec_def ex_seg_def effstarttime_def effendtime_def)
  have f: "flp (ex_rec 1 18000000 25000000) < length ex_files"
    by (simp add: ex_rec_def ex_files_def)
  have ce: "crosses (ex_rec 1 18000000 25000000) (mst_endtime ex_HP)"
    by (simp add: crosses_def ex_rec_def ex_HP_def ex_trace_def effstarttime_def effendtime_def)
  have cs: "\<not> crosses (ex_rec 1 18000000 25000000) (mst_starttime ex_HP)"
    by (simp add: crosses_def ex_rec_def ex_HP_def ex_trace_def effstarttime_def effendtime_def)
  have d: "hpdelta_of (samprate ex_HP) = 1000000"
    by (simp add: hpdelta_of_def c_trunc_def HPTMODULUS_def ex_HP_def ex_trace_def)
  have e: "mst_endtime ex_HP = 20000000" and s: "mst_starttime ex_HP = 10000000"
    by (simp_all add: ex_HP_def ex_trace_def)
  have c: "coverage (- 1) ex_HP \<noteq> []" by (simp add: ex_HP_coverage)
  have l: "(0 :: nat) < length (recordmap ?lp)" and l0: "recordmap ?lp ! 0 = ex_rec 1 18000000 25000000"
    by (simp_all add: ex_trace_def)
  note inst = trim_compare_sample_trims
    [where rec = "ex_rec 1 18000000 25000000" and tsp = "ex_seg 10000000 20000000"
       and files = ex_files and hptrace = ex_HP and mc = 0 and timetol = "- 1" and i = 0
       and lptrace = ?lp]
  from inst r o f ce cs
  have 1: "newstart (fst (trim_compare (CHR ''s'') ex_HP (hpdelta_of (samprate ex_HP)) (ex_seg 10000000 20000000)
                    (ex_rec 1 18000000 25000000, ex_files, 0))) = 21000000 \<and>
        newend (fst (trim_compare (CHR ''s'') ex_HP (hpdelta_of (samprate ex_HP)) (ex_seg 10000000 20000000)
                    (ex_rec 1 18000000 25000000, ex_files, 0))) = 0"
    by (simp add: d e ex_rec_def split: prod.splits)
  from inst c l ce
  have 2: "reclen (fst (trimtraces (CHR ''s'') (- 1) ?lp ex_HP ex_files) ! 0) = 0 \<or>
           newstart (fst (trimtraces (CHR ''s'') (- 1) ?lp ex_HP ex_files) ! 0) = 21000000"
    unfolding l0 d e by simp
  from r o f ce cs 1 2 c show ?thesis by simp
qed

section \<open>Properties of prunetraces\<close>

lemma prune_pair_tie:
  assumes key: "srcname44 (traces ! i) = srcname44 (traces ! j)"
    and rate: "ratetolerable (samprate (traces ! i)) (samprate (traces ! j))"
    and ov: "mst_endtime (traces ! i) > mst_starttime (traces ! j)"
            "mst_starttime (traces ! i) < mst_endtime (traces ! j)"
    and len: "mst_endtime (traces ! i) - mst_starttime (traces ! i) =
              mst_endtime (traces ! j) - mst_starttime (traces ! j)"
    and q: "(bestquality \<and> dataquality (traces ! i) = dataquality (traces ! j)) \<or>
            (\<not> bestquality \<and> priority = 0)"
  shows "prune_pair bestquality prunedata timetol ratetolerable i j (priority, traces, files) =
     (1, traces[i := (traces ! i)\<lparr>recordmap :=
                      fst (trimtraces prunedata timetol (traces ! i) (traces ! j) files)\<rparr>],
      fst (snd (trimtraces prunedata timetol (traces ! i) (traces ! j) files)))"
proof -
  have p1: "(if bestquality then qcompare (dataquality (traces ! i)) (dataquality (traces ! j)) else priority) = 0"
    using q by (auto simp: qcompare_def)
  show ?thesis
    using key rate ov len
    by (simp add: prune_pair_def Let_def p1 split: prod.splits)
qed

text \<open>
  C2 (amended). For traces A before B in group order with the same channel key, tolerable
  rates and overlapping bounds of identical length: when bestquality is on and the
  qualities are equal, or bestquality is off and \<open>priority\<close> is still 0, the comparison
  sets \<open>priority = 1\<close> and calls \<open>trimtraces (A, B)\<close>: B is the higher priority trace, the
  records of A are the ones trimmed, and B is left as it is.
\<close>

theorem prune_pair_tie_trims_first:
  assumes "srcname44 (traces ! i) = srcname44 (traces ! j)"
    and "ratetolerable (samprate (traces ! i)) (samprate (traces ! j))"
    and "mst_endtime (traces ! i) > mst_starttime (traces ! j)"
    and "mst_starttime (traces ! i) < mst_endtime (traces ! j)"
    and "mst_endtime (traces ! i) - mst_starttime (traces ! i) =
         mst_endtime (traces ! j) - mst_starttime (traces ! j)"
    and "(bestquality \<and> dataquality (traces ! i) = dataquality (traces ! j)) \<or>
         (\<not> bestquality \<and> priority = 0)"
    and "i < j" and "j < length traces"
  shows "case prune_pair bestquality prunedata timetol ratetolerable i j (priority, traces, files) of
     (priority', traces', files') \<Rightarrow>
       priority' = 1 \<and>
       recordmap (traces' ! i) = fst (trimtraces prunedata timetol (traces ! i) (traces ! j) files) \<and>
       files' = fst (snd (trimtraces prunedata timetol (traces ! i) (traces ! j) files)) \<and>
       traces' ! j = traces ! j"
  using assms by (simp add: prune_pair_tie)

theorem prune_pair_tie_trims_first_witness:
  "srcname44 ([ex_A, ex_B] ! 0) = srcname44 ([ex_A, ex_B] ! 1) \<and>
   ex_tolerable (samprate ([ex_A, ex_B] ! 0)) (samprate ([ex_A, ex_B] ! 1)) \<and>
   dataquality ([ex_A, ex_B] ! 0) = dataquality ([ex_A, ex_B] ! 1) \<and>
   fst (prune_pair True (CHR ''r'') (- 1) ex_tolerable 0 1 (0, [ex_A, ex_B], ex_files)) = 1 \<and>
   fst (snd (prune_pair True (CHR ''r'') (- 1) ex_tolerable 0 1 (0, [ex_A, ex_B], ex_files))) ! 1 = ex_B"
proof -
  have k: "srcname44 ([ex_A, ex_B] ! 0) = srcname44 ([ex_A, ex_B] ! 1)"
    by (simp add: srcname44_def ex_A_def ex_B_def ex_trace_def)
  have t: "ex_tolerable (samprate ([ex_A, ex_B] ! 0)) (samprate ([ex_A, ex_B] ! 1))"
    by (simp add: ex_tolerable_def ex_A_def ex_B_def ex_trace_def)
  have q: "dataquality ([ex_A, ex_B] ! 0) = dataquality ([ex_A, ex_B] ! 1)"
    by (simp add: ex_A_def ex_B_def ex_trace_def)
  have "case prune_pair True (CHR ''r'') (- 1) ex_tolerable 0 1 (0, [ex_A, ex_B], ex_files) of
     (priority', traces', files') \<Rightarrow>
       priority' = 1 \<and>
       recordmap (traces' ! 0) = fst (trimtraces (CHR ''r'') (- 1) ([ex_A, ex_B] ! 0) ([ex_A, ex_B] ! 1) ex_files) \<and>
       files' = fst (snd (trimtraces (CHR ''r'') (- 1) ([ex_A, ex_B] ! 0) ([ex_A, ex_B] ! 1) ex_files)) \<and>
       traces' ! 1 = [ex_A, ex_B] ! 1"
    using k t
    by (intro prune_pair_tie_trims_first
          [where traces = "[ex_A, ex_B]" and i = 0 and j = 1 and ratetolerable = ex_tolerable
             and bestquality = True and priority = 0])
       (simp_all add: ex_A_def ex_B_def ex_trace_def)
  with k t q show ?thesis by (auto split: prod.splits)
qed

text \<open>The sentence of the spec fails on the two example traces: after \<open>prunetraces\<close> the record
  of the first trace is the one that is dropped, the record of the second trace keeps its
  length.\<close>

theorem prunetraces_tie_counterexample:
  "map reclen (recordmap (fst (snd (prunetraces True (CHR ''r'') (- 1) ex_tolerable
                                      [ex_A, ex_B] ex_files)) ! 0)) = [0] \<and>
   map reclen (recordmap (fst (snd (prunetraces True (CHR ''r'') (- 1) ex_tolerable
                                      [ex_A, ex_B] ex_files)) ! 1)) = [512]"
  by code_simp

section \<open>Properties of readfiles\<close>

text \<open>
  C1. The spec asks that a record which starts before the window start is dropped and
  that no record is dropped by the window in sample mode. The code compares the other way
  round, \<open>starttime < recstarttime\<close>: with the window start at 100 s a record from 50 s to
  60 s is selected and a record from 150 s to 160 s is skipped. The checks do not read
  \<open>prunedata\<close>: in sample mode, with the window end at 100 s, a record from 50 s to 150 s is
  skipped by the end time check.
\<close>

theorem readfiles_window_filter_inverted:
  "select_record 100000000 HPTERROR None None ''IU_ANMO_00_BHZ_D'' 50000000 60000000 = Selected \<and>
   select_record 100000000 HPTERROR None None ''IU_ANMO_00_BHZ_D'' 150000000 160000000 = Skip_starttime \<and>
   readfiles_record HPTERROR 100000000 None None (CHR ''s'') (CHR 0x00) 0 0 ex_msr
       ''IU_ANMO_00_BHZ'' 50000000 150000000 ex_files = Some (Skip_endtime, [], ex_files)"
  by (simp add: select_record_def readfiles_record_def HPTERROR_def ex_msr_def)

section \<open>Properties of the split loop\<close>

lemma next_boundary_greater: "next_boundary sb t = Some b \<Longrightarrow> t < b"
proof -
  have g: "t < (t div u + 1) * u" if "0 < u" for u :: int
  proof -
    have "t = u * (t div u) + t mod u" by simp
    moreover have "t mod u < u" using that by simp
    ultimately have "t < u * (t div u) + u" by linarith
    then show ?thesis by (simp add: algebra_simps)
  qed
  assume "next_boundary sb t = Some b"
  then show ?thesis
    by (auto simp: next_boundary_def HPTMODULUS_def split: if_splits intro!: g)
qed

lemma split_loop_stop:
  assumes "next_boundary sb (effstarttime rec) = Some b" and "endtime rec \<le> b"
  shows "split_loop sb p chain rec files = Some (chain @ [rec], files)"
  using assms by (subst split_loop.simps) simp

lemma split_loop_split:
  assumes "next_boundary sb (effstarttime rec) = Some b" and "endtime rec > b"
  shows "split_loop sb p chain rec files =
         split_loop sb p (chain @ [rec\<lparr>newend := b - p\<rparr>]) (rec\<lparr>newstart := b\<rparr>)
           (upd_file (flp rec) (\<lambda>f. f\<lparr>recsplitcount := recsplitcount f + 1\<rparr>) files)"
  using assms by (subst split_loop.simps) simp

lemma split_loop_unrecognized:
  assumes "next_boundary sb (effstarttime rec) = None"
  shows "split_loop sb p chain rec files = Some (chain @ [rec], files)"
  using assms by (subst split_loop.simps) simp


lemma split_loop_result:
  assumes "split_loop sb p chain rec files = Some res"
  shows "\<exists>ps. fst res = chain @ ps \<and> ps \<noteq> [] \<and> (\<forall>r \<in> set ps. same_record r rec) \<and>
          length (snd res) = length files \<and>
          (\<forall>f < length files. recsplitcount (snd res ! f) =
              recsplitcount (files ! f) + (if f = flp rec then int (length ps) - 1 else 0))"
proof -
  define P :: "char \<Rightarrow> hptime \<Rightarrow> Record list \<Rightarrow> Record \<Rightarrow> Filelink list \<Rightarrow> Record list \<times> Filelink list \<Rightarrow> bool"
    where "P = (\<lambda>sb p chain rec files res.
      \<exists>ps. fst res = chain @ ps \<and> ps \<noteq> [] \<and> (\<forall>r \<in> set ps. same_record r rec) \<and>
          length (snd res) = length files \<and>
          (\<forall>f < length files. recsplitcount (snd res ! f) =
              recsplitcount (files ! f) + (if f = flp rec then int (length ps) - 1 else 0)))"
  have base: "P sb p chain rec files (chain @ [rec], files)" for sb p chain rec files
    unfolding P_def by (rule exI [of _ "[rec]"]) (simp add: same_record_def)
  have "P sb p chain rec files res"
  proof (rule split_loop.raw_induct [where P = P, OF _ assms])
    fix loop sb p chain rec files res
    assume IH: "\<And>sb p chain rec files res. loop sb p chain rec files = Some res \<Longrightarrow> P sb p chain rec files res"
      and eq: "split_body loop sb p chain rec files = Some res"
    show "P sb p chain rec files res"
    proof (cases "next_boundary sb (effstarttime rec)")
      case None
      with eq have "res = (chain @ [rec], files)" by simp
      then show ?thesis by (simp add: base)
    next
      case (Some b)
      show ?thesis
      proof (cases "endtime rec > b")
        case False
        with Some eq have "res = (chain @ [rec], files)" by simp
        then show ?thesis by (simp add: base)
      next
        case True
        let ?files = "upd_file (flp rec) (\<lambda>f. f\<lparr>recsplitcount := recsplitcount f + 1\<rparr>) files"
        from True Some eq
        have "loop sb p (chain @ [rec\<lparr>newend := b - p\<rparr>]) (rec\<lparr>newstart := b\<rparr>) ?files = Some res"
          by simp
        from IH [OF this] obtain ps where
          ps: "fst res = (chain @ [rec\<lparr>newend := b - p\<rparr>]) @ ps" "ps \<noteq> []"
              "\<forall>r \<in> set ps. same_record r (rec\<lparr>newstart := b\<rparr>)"
              "length (snd res) = length ?files"
              "\<forall>f < length ?files. recsplitcount (snd res ! f) =
                 recsplitcount (?files ! f) + (if f = flp (rec\<lparr>newstart := b\<rparr>) then int (length ps) - 1 else 0)"
          unfolding P_def by blast
        show ?thesis
          unfolding P_def
        proof (intro exI [of _ "rec\<lparr>newend := b - p\<rparr> # ps"] conjI)
          show "fst res = chain @ rec\<lparr>newend := b - p\<rparr> # ps" using ps(1) by simp
          show "rec\<lparr>newend := b - p\<rparr> # ps \<noteq> []" by simp
          show "\<forall>r \<in> set (rec\<lparr>newend := b - p\<rparr> # ps). same_record r rec"
            using ps(3) by (auto simp: same_record_def)
          show "length (snd res) = length files" using ps(4) by simp
          show "\<forall>f < length files. recsplitcount (snd res ! f) =
                recsplitcount (files ! f) +
                  (if f = flp rec then int (length (rec\<lparr>newend := b - p\<rparr> # ps)) - 1 else 0)"
            using ps(5) by (auto simp: upd_file_nth)
        qed
      qed
    qed
  qed
  then show ?thesis by (simp add: P_def)
qed

lemma next_boundary_step:
  assumes "next_boundary sb t = Some b"
  shows "next_boundary sb b \<noteq> None"
  using assms by (auto simp: next_boundary_def split: if_splits)

lemma split_loop_terminates:
  assumes "0 \<le> effstarttime rec \<or> endtime rec \<le> 0"
  shows "\<exists>res. split_loop sb p chain rec files = Some res"
  using assms
proof (induction "nat (endtime rec - effstarttime rec)" arbitrary: rec chain files rule: less_induct)
  case less
  show ?case
  proof (cases "next_boundary sb (effstarttime rec)")
    case None
    then show ?thesis by (simp add: split_loop_unrecognized)
  next
    case (Some b)
    then have gt: "effstarttime rec < b" by (rule next_boundary_greater)
    show ?thesis
    proof (cases "endtime rec > b")
      case False
      with Some show ?thesis by (simp add: split_loop_stop)
    next
      case True
      let ?rec = "rec\<lparr>newstart := b\<rparr>"
      from less.prems gt True have nz: "b \<noteq> 0" by auto
      then have eff: "effstarttime ?rec = b" by (simp add: effstarttime_def)
      have "nat (endtime ?rec - effstarttime ?rec) < nat (endtime rec - effstarttime rec)"
        using eff gt True by simp
      moreover have "0 \<le> effstarttime ?rec \<or> endtime ?rec \<le> 0"
        using less.prems gt True eff by auto
      ultimately have "\<exists>res. split_loop sb p (chain @ [rec\<lparr>newend := b - p\<rparr>]) ?rec
          (upd_file (flp rec) (\<lambda>f. f\<lparr>recsplitcount := recsplitcount f + 1\<rparr>) files) = Some res"
        by (rule less.hyps)
      then show ?thesis using Some True by (simp add: split_loop_split)
    qed
  qed
qed

lemma split_loop_diverges:
  assumes "next_boundary sb (starttime rec) = Some 0" and "0 < endtime rec" and "newstart rec = 0"
  shows "split_loop sb p chain rec files = None"
proof -
  define P :: "char \<Rightarrow> hptime \<Rightarrow> Record list \<Rightarrow> Record \<Rightarrow> Filelink list \<Rightarrow> Record list \<times> Filelink list \<Rightarrow> bool"
    where "P = (\<lambda>sb p chain rec files res.
      \<not> (next_boundary sb (starttime rec) = Some 0 \<and> 0 < endtime rec \<and> newstart rec = 0))"
  have "P sb p chain rec files res" if r: "split_loop sb p chain rec files = Some res" for res
  proof (rule split_loop.raw_induct [where P = P, OF _ r])
    fix loop sb p chain rec files res
    assume IH: "\<And>sb p chain rec files res. loop sb p chain rec files = Some res \<Longrightarrow> P sb p chain rec files res"
      and eq: "split_body loop sb p chain rec files = Some res"
    show "P sb p chain rec files res"
      unfolding P_def
    proof
      assume a: "next_boundary sb (starttime rec) = Some 0 \<and> 0 < endtime rec \<and> newstart rec = 0"
      then have e: "effstarttime rec = starttime rec" by (simp add: effstarttime_def)
      from a have same: "rec\<lparr>newstart := 0\<rparr> = rec" by simp
      from a e eq have "loop sb p (chain @ [rec\<lparr>newend := 0 - p\<rparr>]) (rec\<lparr>newstart := 0\<rparr>)
          (upd_file (flp rec) (\<lambda>f. f\<lparr>recsplitcount := recsplitcount f + 1\<rparr>) files) = Some res"
        by simp
      from IH [OF this] a show False by (simp add: P_def)
    qed
  qed
  with assms show ?thesis by (cases "split_loop sb p chain rec files") (auto simp: P_def)
qed


text \<open>
  C6. When the split boundary is set, the record goes through the split loop with the
  sample period of its rate. For a boundary code d, h or m there is a next boundary \<open>b\<close>, and
  it is strictly greater than the effective start of the current record. If the end of the
  record is not beyond \<open>b\<close>, the loop ends and the record is the last of the chain,
  unchanged. Otherwise the current record gets \<open>newend = b - hpdelta\<close>, its clone gets
  \<open>newstart = b\<close> and nothing else, the clone follows the current record in the chain, the
  split counter of the file goes up by one and the loop goes on with the clone. A loop that
  ends returns the records before the chain followed by the parts of the record, which
  differ in their trim times only, and the split counter has grown by the number of
  clones. The loop ends for every record that does not start before tick 0 and end after
  it.
\<close>

theorem split_loop_splits:
  "(splitboundary \<noteq> CHR 0x00 \<longrightarrow>
      split_record splitboundary rate rec files =
        split_loop splitboundary (hpdelta_of rate) [] rec files) \<and>
   (splitboundary = CHR ''d'' \<or> splitboundary = CHR ''h'' \<or> splitboundary = CHR ''m'' \<longrightarrow>
      (\<exists>b. next_boundary splitboundary (effstarttime rec) = Some b)) \<and>
   (\<forall>b. next_boundary splitboundary (effstarttime rec) = Some b \<longrightarrow>
      effstarttime rec < b \<and>
      (endtime rec \<le> b \<longrightarrow>
         split_loop splitboundary hpdelta chain rec files = Some (chain @ [rec], files)) \<and>
      (endtime rec > b \<longrightarrow>
         split_loop splitboundary hpdelta chain rec files =
           split_loop splitboundary hpdelta
             (chain @ [rec\<lparr>newend := b - hpdelta\<rparr>]) (rec\<lparr>newstart := b\<rparr>)
             (upd_file (flp rec) (\<lambda>f. f\<lparr>recsplitcount := recsplitcount f + 1\<rparr>) files))) \<and>
   (\<forall>res. split_loop splitboundary hpdelta chain rec files = Some res \<longrightarrow>
      (\<exists>ps. fst res = chain @ ps \<and> ps \<noteq> [] \<and> (\<forall>r \<in> set ps. same_record r rec) \<and>
         length (snd res) = length files \<and>
         (\<forall>f < length files. recsplitcount (snd res ! f) =
            recsplitcount (files ! f) + (if f = flp rec then int (length ps) - 1 else 0)))) \<and>
   (0 \<le> effstarttime rec \<or> endtime rec \<le> 0 \<longrightarrow>
      (\<exists>res. split_loop splitboundary hpdelta chain rec files = Some res))"
proof (intro conjI allI impI)
  assume "splitboundary \<noteq> CHR 0x00"
  then show "split_record splitboundary rate rec files =
        split_loop splitboundary (hpdelta_of rate) [] rec files"
    by (simp add: split_record_def)
next
  assume "splitboundary = CHR ''d'' \<or> splitboundary = CHR ''h'' \<or> splitboundary = CHR ''m''"
  then show "\<exists>b. next_boundary splitboundary (effstarttime rec) = Some b"
    by (auto simp: next_boundary_def)
next
  fix b assume "next_boundary splitboundary (effstarttime rec) = Some b"
  then show "effstarttime rec < b" by (rule next_boundary_greater)
next
  fix b assume "next_boundary splitboundary (effstarttime rec) = Some b" and "endtime rec \<le> b"
  then show "split_loop splitboundary hpdelta chain rec files = Some (chain @ [rec], files)"
    by (rule split_loop_stop)
next
  fix b assume "next_boundary splitboundary (effstarttime rec) = Some b" and "b < endtime rec"
  then show "split_loop splitboundary hpdelta chain rec files =
           split_loop splitboundary hpdelta
             (chain @ [rec\<lparr>newend := b - hpdelta\<rparr>]) (rec\<lparr>newstart := b\<rparr>)
             (upd_file (flp rec) (\<lambda>f. f\<lparr>recsplitcount := recsplitcount f + 1\<rparr>) files)"
    by (rule split_loop_split)
next
  fix res assume "split_loop splitboundary hpdelta chain rec files = Some res"
  then show "\<exists>ps. fst res = chain @ ps \<and> ps \<noteq> [] \<and> (\<forall>r \<in> set ps. same_record r rec) \<and>
         length (snd res) = length files \<and>
         (\<forall>f < length files. recsplitcount (snd res ! f) =
            recsplitcount (files ! f) + (if f = flp rec then int (length ps) - 1 else 0))"
    by (rule split_loop_result)
next
  assume "0 \<le> effstarttime rec \<or> endtime rec \<le> 0"
  then show "\<exists>res. split_loop splitboundary hpdelta chain rec files = Some res"
    by (rule split_loop_terminates)
qed

lemma ex_split:
  "split_loop (CHR ''d'') 1000000 [] (ex_rec 0 1167695998000000 1167696002000000) ex_files =
     Some ([(ex_rec 0 1167695998000000 1167696002000000)\<lparr>newend := 1167695999000000\<rparr>,
            (ex_rec 0 1167695998000000 1167696002000000)\<lparr>newstart := 1167696000000000\<rparr>],
           [(ex_file ''a.mseed'')\<lparr>recsplitcount := 1\<rparr>, ex_file ''b.mseed''])"
  by (simp add: split_loop.simps next_boundary_def effstarttime_def ex_rec_def HPTMODULUS_def
        ex_files_def ex_file_def upd_file_def)

theorem split_loop_splits_witness:
  "CHR ''d'' \<noteq> CHR 0x00 \<and>
   next_boundary (CHR ''d'') (effstarttime (ex_rec 0 1167695998000000 1167696002000000)) = Some 1167696000000000 \<and>
   effstarttime (ex_rec 0 1167695998000000 1167696002000000) < 1167696000000000 \<and>
   endtime (ex_rec 0 1167695998000000 1167696002000000) > 1167696000000000 \<and>
   0 \<le> effstarttime (ex_rec 0 1167695998000000 1167696002000000) \<and>
   split_record (CHR ''d'') 1 (ex_rec 0 1167695998000000 1167696002000000) ex_files =
     Some ([(ex_rec 0 1167695998000000 1167696002000000)\<lparr>newend := 1167695999000000\<rparr>,
            (ex_rec 0 1167695998000000 1167696002000000)\<lparr>newstart := 1167696000000000\<rparr>],
           [(ex_file ''a.mseed'')\<lparr>recsplitcount := 1\<rparr>, ex_file ''b.mseed'']) \<and>
   next_boundary (CHR ''d'')
     (effstarttime ((ex_rec 0 1167695998000000 1167696002000000)\<lparr>newstart := 1167696000000000\<rparr>)) =
     Some 1167782400000000 \<and>
   endtime ((ex_rec 0 1167695998000000 1167696002000000)\<lparr>newstart := 1167696000000000\<rparr>)
     \<le> 1167782400000000 \<and>
   split_loop (CHR ''d'') 1000000 []
     ((ex_rec 0 1167695998000000 1167696002000000)\<lparr>newstart := 1167696000000000\<rparr>) ex_files =
     Some ([(ex_rec 0 1167695998000000 1167696002000000)\<lparr>newstart := 1167696000000000\<rparr>], ex_files)"
proof -
  let ?rec = "ex_rec 0 1167695998000000 1167696002000000"
  let ?clone = "?rec\<lparr>newstart := 1167696000000000\<rparr>"
  have nb: "next_boundary (CHR ''d'') (effstarttime ?rec) = Some 1167696000000000"
    by (simp add: next_boundary_def effstarttime_def ex_rec_def HPTMODULUS_def)
  have en: "endtime ?rec > 1167696000000000" by (simp add: ex_rec_def)
  have st: "0 \<le> effstarttime ?rec" by (simp add: effstarttime_def ex_rec_def)
  have d: "hpdelta_of 1 = 1000000" by (simp add: hpdelta_of_def c_trunc_def HPTMODULUS_def)
  note inst = split_loop_splits [where splitboundary = "CHR ''d''" and rate = 1 and rec = ?rec
      and files = ex_files and hpdelta = 1000000 and chain = "[]"]
  from inst nb have lt: "effstarttime ?rec < 1167696000000000" by blast
  from inst have "split_record (CHR ''d'') 1 ?rec ex_files =
      split_loop (CHR ''d'') (hpdelta_of 1) [] ?rec ex_files" by simp
  then have sr: "split_record (CHR ''d'') 1 ?rec ex_files =
     Some ([?rec\<lparr>newend := 1167695999000000\<rparr>, ?rec\<lparr>newstart := 1167696000000000\<rparr>],
           [(ex_file ''a.mseed'')\<lparr>recsplitcount := 1\<rparr>, ex_file ''b.mseed''])"
    by (simp add: d ex_split)
  have nb2: "next_boundary (CHR ''d'') (effstarttime ?clone) = Some 1167782400000000"
    by (simp add: next_boundary_def effstarttime_def ex_rec_def HPTMODULUS_def)
  have en2: "endtime ?clone \<le> 1167782400000000" by (simp add: ex_rec_def)
  note inst2 = split_loop_splits [where splitboundary = "CHR ''d''" and rec = ?clone
      and files = ex_files and hpdelta = 1000000 and chain = "[]"]
  from inst2 nb2 en2 have sl: "split_loop (CHR ''d'') 1000000 [] ?clone ex_files = Some ([?clone], ex_files)"
    by simp
  from nb lt en st sr nb2 en2 sl show ?thesis by simp
qed

section \<open>Properties of trimrecord and writetraces\<close>

lemmas ex_defs = ex_codec_def ex_unpack_def ex_pack_def ex_emit_rec_def ex_world_def ex_opts_def
  ex_trace_def ex_file_def ex_codec_nopack_def ex_world_orig_def ex_opts_replace_def

lemmas emit_defs = writetraces_def open_output_def emit_record_def read_record_def file_of_def
  trim_stage_def trimrecord_def newtimes_problem_def trim_front_def trim_back_def
  record_handler_def restamp_def write_single_def fwrite_def outblock_def write_archives_def
  write_replace_def account_def world_of_def complain_def upd_file_def
  HPTMODULUS_def c_trunc_def hpdelta_of_def Let_def

lemma ex_floor: "\<lfloor>11 / 2 :: rat\<rfloor> = 5"
  by (simp add: floor_eq_iff)

lemma ex_char: "char_of (53 :: int) = CHR ''5''"
  by code_simp

lemma ex_dots: "replicate 10 (CHR ''.'') = ''..........''"
  by code_simp

lemma trimrecord_unpacked:
  assumes "msr_unpack cd buf (reclen rec) True = Some msr"
  shows "trimrecord cd rec buf =
     (0, fold record_handler (fst (msr_pack cd (trim_back rec (trim_front rec msr)))) buf,
      if newtimes_problem rec
      then [''ERROR: problem with new start/end record times, skipping.''] else [])"
  using assms by (simp add: trimrecord_def split: prod.splits)

text \<open>
  C5. The spec asks that a record whose trim times fail the sanity check is written with
  its original bytes. \<open>trimrecord\<close> prints the message ``problem with new start/end record
  times, skipping.'' and goes on: the record is unpacked, trimmed and packed like any
  other. For the record from 0 s to 10 s with \<open>newstart = newend = 5 s\<close> the check fails,
  \<open>trimrecord\<close> returns 0 with the repacked record in the buffer, and \<open>writetraces\<close>
  writes the repacked record, one sample long, to the output file.
\<close>

theorem trimrecord_problem_still_trims:
  "newtimes_problem (ex_emit_rec 5000000 5000000) \<and>
   trimrecord ex_codec (ex_emit_rec 5000000 5000000) (''0123456789A'' @ replicate 16373 (CHR 0x00)) =
     (0, ''5..........'' @ replicate 16373 (CHR 0x00),
      [''ERROR: problem with new start/end record times, skipping.'']) \<and>
   fs (writetraces ex_codec ex_opts [ex_trace (CHR ''D'') 0 10000000 [ex_emit_rec 5000000 5000000]] ex_world)
      ''out.mseed'' = Some ''5..........''"
  by (simp add: ex_defs emit_defs ex_floor ex_char ex_dots)

text \<open>
  C7. The spec asks that a record is skipped when the codec fails to repack it.
  \<open>trimrecord\<close> does not read the return value of \<open>msr_pack\<close> and returns 0: with a packer
  that fails the buffer keeps the bytes read from the file, and \<open>writetraces\<close> writes
  them to the output file and counts them for the file.
\<close>

theorem writetraces_pack_failure_written:
  "snd (msr_pack ex_codec_nopack ex_msr) = - 1 \<and>
   trimrecord ex_codec_nopack (ex_emit_rec 5000000 0) (''0123456789A'' @ replicate 16373 (CHR 0x00)) =
     (0, ''0123456789A'' @ replicate 16373 (CHR 0x00), []) \<and>
   fs (writetraces ex_codec_nopack ex_opts [ex_trace (CHR ''D'') 0 10000000 [ex_emit_rec 5000000 0]] ex_world)
      ''out.mseed'' = Some ''0123456789A'' \<and>
   map byteswritten (filelist (writetraces ex_codec_nopack ex_opts
      [ex_trace (CHR ''D'') 0 10000000 [ex_emit_rec 5000000 0]] ex_world)) = [11]"
  by (simp add: ex_defs emit_defs)

section \<open>Files after the emission loop\<close>

lemma keeps_refl [simp]: "keeps w w"
  by (simp add: keeps_def)

lemma keeps_trans: "keeps w w' \<Longrightarrow> keeps w' w'' \<Longrightarrow> keeps w w''"
  by (simp add: keeps_def)

lemma upd_file_infilename:
  assumes "\<And>f. infilename (g f) = infilename f"
  shows "map infilename (upd_file i g files) = map infilename files"
  using assms by (simp add: upd_file_def map_update list_update_same_conv)

lemma keeps_complain [simp]: "keeps w (complain msg w)"
  by (simp add: keeps_def complain_def)

lemma keeps_read_record: "keeps w (world_of (read_record rec w))"
  by (auto simp: read_record_def world_of_def keeps_def complain_def Let_def upd_file_infilename
           split: option.splits)

lemma keeps_trim_stage: "keeps w (snd (trim_stage cd rec w))"
  by (simp add: trim_stage_def keeps_def split: prod.splits)

lemma keeps_restamp: "keeps w (restamp opts w)"
  by (simp add: restamp_def keeps_def)

lemma keeps_fwrite: "fwrite name block w = Some w' \<Longrightarrow> keeps w w'"
  by (auto simp: fwrite_def keeps_def split: if_splits)

lemma keeps_write_single: "keeps w (world_of (write_single rec w))"
  by (auto simp: write_single_def world_of_def keeps_def complain_def fwrite_def
           split: option.splits ostream.splits)

lemma keeps_write_archives: "keeps w (write_archives cd opts rec w)"
  by (simp add: write_archives_def keeps_def complain_def split: option.splits)

lemma keeps_write_replace: "keeps w (world_of (write_replace opts rec w))"
  by (auto simp: write_replace_def world_of_def keeps_def complain_def fwrite_def Let_def
                 upd_file_infilename
           split: option.splits)

lemma keeps_account: "keeps w (account mst rec w)"
  by (simp add: account_def keeps_def upd_file_infilename Let_def)

lemma keeps_emit_record: "keeps w (world_of (emit_record cd opts mst rec w))"
proof (cases "reclen rec = 0")
  case True
  then show ?thesis by (simp add: emit_record_def world_of_def)
next
  case False
  show ?thesis
  proof (cases "read_record rec w")
    case (Stop w')
    with False keeps_read_record [of w rec] show ?thesis
      by (simp add: emit_record_def world_of_def)
  next
    case (Cont w1)
    with keeps_read_record [of w rec] have k1: "keeps w w1" by (simp add: world_of_def)
    obtain skip w2 where ts: "trim_stage cd rec w1 = (skip, w2)" by (cases "trim_stage cd rec w1")
    with keeps_trim_stage [of w1 cd rec] have k2: "keeps w1 w2" by simp
    show ?thesis
    proof (cases skip)
      case True
      with False Cont ts keeps_trans [OF k1 k2] show ?thesis
        by (simp add: emit_record_def world_of_def)
    next
      case nskip: False
      have k3: "keeps w2 (restamp opts w2)" by (rule keeps_restamp)
      show ?thesis
      proof (cases "write_single rec (restamp opts w2)")
        case (Stop w')
        with keeps_write_single [of "restamp opts w2" rec] have "keeps (restamp opts w2) w'"
          by (simp add: world_of_def)
        with k1 k2 k3 have "keeps w w'" by (blast intro: keeps_trans)
        with False Cont ts nskip Stop show ?thesis by (simp add: emit_record_def world_of_def)
      next
        case c3: (Cont w3)
        with keeps_write_single [of "restamp opts w2" rec] have "keeps (restamp opts w2) w3"
          by (simp add: world_of_def)
        with k1 k2 k3 have k4: "keeps w w3" by (blast intro: keeps_trans)
        have k5: "keeps w3 (write_archives cd opts rec w3)" by (rule keeps_write_archives)
        show ?thesis
        proof (cases "write_replace opts rec (write_archives cd opts rec w3)")
          case (Stop w')
          with keeps_write_replace [of "write_archives cd opts rec w3" opts rec]
          have "keeps (write_archives cd opts rec w3) w'" by (simp add: world_of_def)
          with k4 k5 have "keeps w w'" by (blast intro: keeps_trans)
          with False Cont ts nskip c3 Stop show ?thesis by (simp add: emit_record_def world_of_def)
        next
          case c4: (Cont w4)
          with keeps_write_replace [of "write_archives cd opts rec w3" opts rec]
          have "keeps (write_archives cd opts rec w3) w4" by (simp add: world_of_def)
          with k4 k5 keeps_account [of w4 mst rec] have "keeps w (account mst rec w4)"
            by (blast intro: keeps_trans)
          with False Cont ts nskip c3 c4 show ?thesis by (simp add: emit_record_def world_of_def)
        qed
      qed
    qed
  qed
qed

lemma keeps_emit_records: "keeps w (world_of (emit_records cd opts mst recs w))"
proof (induction recs arbitrary: w)
  case Nil
  show ?case by (simp add: world_of_def)
next
  case (Cons rec recs)
  show ?case
  proof (cases "emit_record cd opts mst rec w")
    case (Stop w')
    with keeps_emit_record [of w cd opts mst rec] show ?thesis by (simp add: world_of_def)
  next
    case (Cont w')
    with keeps_emit_record [of w cd opts mst rec] have "keeps w w'" by (simp add: world_of_def)
    with Cons.IH [of w'] Cont show ?thesis by (auto intro: keeps_trans)
  qed
qed

lemma keeps_emit_traces: "keeps w (world_of (emit_traces cd opts msts w))"
proof (induction msts arbitrary: w)
  case Nil
  show ?case by (simp add: world_of_def)
next
  case (Cons mst msts)
  show ?case
  proof (cases "emit_records cd opts mst (recordmap mst) w")
    case (Stop w')
    with keeps_emit_records [of w cd opts mst "recordmap mst"] show ?thesis by (simp add: world_of_def)
  next
    case (Cont w')
    with keeps_emit_records [of w cd opts mst "recordmap mst"] have "keeps w w'" by (simp add: world_of_def)
    with Cons.IH [of w'] Cont show ?thesis by (auto intro: keeps_trans)
  qed
qed

lemma close_files_closed:
  "close_files remove files st = (files', st') \<Longrightarrow>
     map infilename files' = map infilename files \<and> (\<forall>f \<in> set files'. \<not> infp f \<and> \<not> outfp f)"
proof (induction files arbitrary: st files' st')
  case Nil
  then show ?case by (cases st) simp
next
  case (Cons f files)
  obtain fsys msgs where st: "st = (fsys, msgs)" by (cases st)
  let ?st1 = "if remove
              then (if fsys (infilename f) = None then (fsys, msgs @ [''ERROR removing''])
                    else (fsys(infilename f := None), msgs))
              else (fsys, msgs)"
  obtain fs1 st1' where r: "close_files remove files ?st1 = (fs1, st1')"
    by (cases "close_files remove files ?st1")
  from Cons.prems st r have "files' = f\<lparr>infp := False, outfp := False\<rparr> # fs1"
    by (cases st1') simp
  with Cons.IH [OF r] show ?case by simp
qed

lemma close_files_keep:
  "close_files False files (fsys, msgs) = (files', fsys', msgs') \<Longrightarrow> fsys' = fsys \<and> msgs' = msgs"
  by (induction files arbitrary: files') (auto split: prod.splits)

lemma close_files_remove:
  "close_files True files (fsys, msgs) = (files', fsys', msgs') \<Longrightarrow>
     (\<forall>p. fsys' p = (if p \<in> infilename ` set files then None else fsys p))"
proof (induction files arbitrary: fsys msgs files')
  case Nil
  then show ?case by simp
next
  case (Cons f files)
  then show ?case
    by (auto split: prod.splits if_splits)
qed


lemma open_output_ofp:
  assumes "open_output opts w = Some w0"
  shows "(ofp w0 = None \<longleftrightarrow> outputfile opts = None) \<and>
         map infilename (filelist w0) = map infilename (filelist w) \<and>
         (\<forall>p. fs w p \<noteq> None \<longrightarrow> fs w0 p \<noteq> None)"
  using assms by (auto simp: open_output_def split: option.splits if_splits)

text \<open>
  C8 (amended). When \<open>writetraces\<close> has reached the emission loop, then after it every
  input and output stream of the file list and the single output stream are closed. If
  replace-input and no-backups are set and no single output file is in use, every input
  file name of the file list is gone from the disk; these are the names with the suffix
  .orig that \<open>readfiles\<close> gave the input files. If no-backups is not set, or a single output
  file is in use, no file that was on disk before is missing after.
\<close>

theorem writetraces_closes_and_unlinks:
  assumes "traces \<noteq> []" and "open_output opts w = Some w0"
  shows "(\<forall>f \<in> set (filelist (writetraces cd opts traces w)). \<not> infp f \<and> \<not> outfp f) \<and>
         ofp (writetraces cd opts traces w) = None \<and>
         map infilename (filelist (writetraces cd opts traces w)) = map infilename (filelist w) \<and>
         (replaceinput opts \<and> nobackups opts \<and> outputfile opts = None \<longrightarrow>
            (\<forall>f \<in> set (filelist w). fs (writetraces cd opts traces w) (infilename f) = None)) \<and>
         (\<not> nobackups opts \<or> outputfile opts \<noteq> None \<longrightarrow>
            (\<forall>p. fs w p \<noteq> None \<longrightarrow> fs (writetraces cd opts traces w) p \<noteq> None)) \<and>
         (\<forall>f fsys f' fsys'. rename_input (replaceinput opts) f fsys = Some (f', fsys') \<and> replaceinput opts \<longrightarrow>
            infilename f' = infilename f @ ''.orig'' \<and> outfilename f' = Some (infilename f) \<and>
            fsys' (infilename f') = fsys (infilename f))"
proof -
  let ?w1 = "world_of (emit_traces cd opts traces w0)"
  let ?rm = "nobackups opts \<and> ofp ?w1 = None"
  obtain files' fsys' msgs' where cf: "close_files ?rm (filelist ?w1) (fs ?w1, stderr ?w1) = (files', fsys', msgs')"
    by (cases "close_files ?rm (filelist ?w1) (fs ?w1, stderr ?w1)")
  have wt: "writetraces cd opts traces w = ?w1\<lparr>filelist := files', fs := fsys', stderr := msgs', ofp := None\<rparr>"
    using assms cf by (simp add: writetraces_def Let_def)
  have k: "keeps w0 ?w1" by (rule keeps_emit_traces)
  note oo = open_output_ofp [OF assms(2)]
  from k oo have names: "map infilename (filelist ?w1) = map infilename (filelist w)"
    by (simp add: keeps_def)
  from k oo have mono: "\<forall>p. fs w p \<noteq> None \<longrightarrow> fs ?w1 p \<noteq> None"
    by (simp add: keeps_def)
  from k oo have of: "ofp ?w1 = None \<longleftrightarrow> outputfile opts = None"
    by (simp add: keeps_def)
  note cl = close_files_closed [OF cf]
  have 1: "\<forall>f \<in> set (filelist (writetraces cd opts traces w)). \<not> infp f \<and> \<not> outfp f"
    using cl by (simp add: wt)
  have 2: "ofp (writetraces cd opts traces w) = None" by (simp add: wt)
  have 3: "map infilename (filelist (writetraces cd opts traces w)) = map infilename (filelist w)"
    using cl names by (simp add: wt)
  have 4: "\<forall>f \<in> set (filelist w). fs (writetraces cd opts traces w) (infilename f) = None"
    if "replaceinput opts \<and> nobackups opts \<and> outputfile opts = None"
  proof
    fix f assume f: "f \<in> set (filelist w)"
    from that of have "?rm" by simp
    with cf have "close_files True (filelist ?w1) (fs ?w1, stderr ?w1) = (files', fsys', msgs')" by simp
    from close_files_remove [OF this]
    have r: "fsys' p = (if p \<in> infilename ` set (filelist ?w1) then None else fs ?w1 p)" for p by simp
    have "infilename ` set (filelist ?w1) = infilename ` set (filelist w)"
      using names by (metis set_map)
    with f r [of "infilename f"] show "fs (writetraces cd opts traces w) (infilename f) = None"
      by (simp add: wt)
  qed
  have 5: "\<forall>p. fs w p \<noteq> None \<longrightarrow> fs (writetraces cd opts traces w) p \<noteq> None"
    if "\<not> nobackups opts \<or> outputfile opts \<noteq> None"
  proof -
    from that of have "\<not> ?rm" by auto
    with cf have "close_files False (filelist ?w1) (fs ?w1, stderr ?w1) = (files', fsys', msgs')" by simp
    from close_files_keep [OF this] have "fsys' = fs ?w1" by simp
    with mono show ?thesis by (simp add: wt)
  qed
  have 6: "\<forall>f fsys f' fsys'. rename_input (replaceinput opts) f fsys = Some (f', fsys') \<and> replaceinput opts \<longrightarrow>
            infilename f' = infilename f @ ''.orig'' \<and> outfilename f' = Some (infilename f) \<and>
            fsys' (infilename f') = fsys (infilename f)"
    by (auto simp: rename_input_def split: option.splits)
  from 1 2 3 4 5 6 show ?thesis by blast
qed

theorem writetraces_closes_and_unlinks_witness:
  "[ex_trace (CHR ''D'') 0 10000000 [ex_emit_rec 0 0]] \<noteq> [] \<and>
   open_output (ex_opts_replace\<lparr>outputfile := None\<rparr>) ex_world_orig = Some ex_world_orig \<and>
   replaceinput (ex_opts_replace\<lparr>outputfile := None\<rparr>) \<and>
   nobackups (ex_opts_replace\<lparr>outputfile := None\<rparr>) \<and>
   outputfile (ex_opts_replace\<lparr>outputfile := None\<rparr>) = None \<and>
   fs (writetraces ex_codec (ex_opts_replace\<lparr>outputfile := None\<rparr>)
         [ex_trace (CHR ''D'') 0 10000000 [ex_emit_rec 0 0]] ex_world_orig) ''a.mseed.orig'' = None \<and>
   open_output ex_opts ex_world =
     Some (ex_world\<lparr>ofp := Some (Outfile ''out.mseed''), fs := (fs ex_world)(''out.mseed'' \<mapsto> [])\<rparr>) \<and>
   nobackups ex_opts = False \<and>
   fs ex_world ''a.mseed'' = Some ''0123456789A'' \<and>
   fs (writetraces ex_codec ex_opts [ex_trace (CHR ''D'') 0 10000000 [ex_emit_rec 0 0]] ex_world)
      ''a.mseed'' \<noteq> None \<and>
   rename_input True (ex_file ''a.mseed'') (fs ex_world) =
     Some ((ex_file ''a.mseed.orig'')\<lparr>outfilename := Some ''a.mseed''\<rparr>, fs ex_world_orig)"
proof -
  let ?opts = "ex_opts_replace\<lparr>outputfile := None\<rparr>"
  let ?traces = "[ex_trace (CHR ''D'') 0 10000000 [ex_emit_rec 0 0]]"
  have t: "?traces \<noteq> []" by simp
  have o: "open_output ?opts ex_world_orig = Some ex_world_orig"
    by (simp add: open_output_def ex_opts_replace_def ex_opts_def ex_world_orig_def ex_world_def)
  have c: "replaceinput ?opts \<and> nobackups ?opts \<and> outputfile ?opts = None"
    by (simp add: ex_opts_replace_def ex_opts_def)
  have m: "(ex_file ''a.mseed.orig'')\<lparr>outfilename := Some ''a.mseed''\<rparr> \<in> set (filelist ex_world_orig)"
    by (simp add: ex_world_orig_def ex_world_def)
  from writetraces_closes_and_unlinks [OF t o, of ex_codec] c m
  have "fs (writetraces ex_codec ?opts ?traces ex_world_orig)
          (infilename ((ex_file ''a.mseed.orig'')\<lparr>outfilename := Some ''a.mseed''\<rparr>)) = None"
    by blast
  then have 1: "fs (writetraces ex_codec ?opts ?traces ex_world_orig) ''a.mseed.orig'' = None"
    by (simp add: ex_file_def)
  have o2: "open_output ex_opts ex_world =
     Some (ex_world\<lparr>ofp := Some (Outfile ''out.mseed''), fs := (fs ex_world)(''out.mseed'' \<mapsto> [])\<rparr>)"
    by (simp add: open_output_def ex_opts_def ex_world_def)
  have nb: "nobackups ex_opts = False" by (simp add: ex_opts_def)
  have ex: "fs ex_world ''a.mseed'' = Some ''0123456789A''" by (simp add: ex_world_def)
  from writetraces_closes_and_unlinks [OF t o2, of ex_codec] nb ex
  have 2: "fs (writetraces ex_codec ex_opts ?traces ex_world) ''a.mseed'' \<noteq> None"
    by simp
  have rn: "rename_input True (ex_file ''a.mseed'') (fs ex_world) =
     Some ((ex_file ''a.mseed.orig'')\<lparr>outfilename := Some ''a.mseed''\<rparr>, fs ex_world_orig)"
    by (auto simp: rename_input_def ex_file_def ex_world_def ex_world_orig_def)
  from t o c 1 o2 nb ex 2 rn show ?thesis by simp
qed


text \<open>The sentence of the spec fails with the options -R -nb -o out.mseed: both replace-input
  and no-backups are set and the renamed input file is still on disk after the run.\<close>

theorem writetraces_backup_kept_counterexample:
  "replaceinput ex_opts_replace \<and> nobackups ex_opts_replace \<and>
   fs (writetraces ex_codec ex_opts_replace [ex_trace (CHR ''D'') 0 10000000 [ex_emit_rec 0 0]] ex_world_orig)
      ''a.mseed.orig'' = Some ''0123456789A''"
  by (simp add: ex_defs emit_defs)

text \<open>With -nb and an archive, without -R and -o, the input file itself is removed.\<close>

lemma writetraces_input_removed:
  "fs (writetraces ex_codec (ex_opts\<lparr>outputfile := None, archiveroot := [''archive''], nobackups := True\<rparr>)
         [ex_trace (CHR ''D'') 0 10000000 [ex_emit_rec 0 0]] ex_world) ''a.mseed'' = None"
  by (simp add: ex_defs emit_defs)

section \<open>Tick 0 as the unset trim time\<close>

lemma read_record_block:
  assumes "read_record rec w = Cont w1" and "fs w (infilename (file_of w rec)) = Some content"
  shows "outblock rec w1 = take (nat (reclen rec)) (drop (offset rec) content)"
  using assms
  by (auto simp: read_record_def outblock_def record_handler_def Let_def min_def
           split: if_splits)

text \<open>
  For a record whose \<open>newstart\<close> and \<open>newend\<close> are both 0 the emitter does not trim:
  \<open>trimrecord\<close> is not called and the world is as it was after the read, so that, without a
  quality restamp, the block written is the block of the input file. The pruner and the
  splitter take the start and end time of the record as its effective times. A trim time of
  the pruner that is tick 0 leaves the descriptor of the record as it is.
\<close>

lemma unset_trim_times_no_trim:
  assumes "newstart rec = 0" and "newend rec = 0"
  shows "trim_stage cd rec w = (False, w) \<and>
         effstarttime rec = starttime rec \<and> effendtime rec = endtime rec \<and>
         overlapped rec tsp = (ts_starttime tsp \<le> starttime rec \<and> endtime rec \<le> ts_endtime tsp) \<and>
         crosses rec t = (starttime rec \<le> t \<and> t \<le> endtime rec) \<and>
         next_boundary sb (effstarttime rec) = next_boundary sb (starttime rec) \<and>
         fst (set_newend 0 (rec, files, mc)) = rec \<and>
         fst (set_newstart 0 (rec, files, mc)) = rec \<and>
         (reclen rec \<noteq> 0 \<and> \<not> overlapped rec tsp \<and>
          (crosses rec (mst_starttime hptrace) \<longrightarrow> mst_starttime hptrace - d = 0) \<and>
          (crosses rec (mst_endtime hptrace) \<longrightarrow> mst_endtime hptrace + d = 0) \<longrightarrow>
            fst (trim_compare (CHR ''s'') hptrace d tsp (rec, files, mc)) = rec) \<and>
         (restampqind opts = CHR 0x00 \<and> read_record rec w = Cont w1 \<and>
          fs w (infilename (file_of w rec)) = Some content \<longrightarrow>
            outblock rec (restamp opts (snd (trim_stage cd rec w1))) =
              take (nat (reclen rec)) (drop (offset rec) content))"
proof -
  have ts: "trim_stage cd rec w' = (False, w')" for w'
    using assms by (simp add: trim_stage_def)
  have se: "fst (set_newend 0 (rec, files, mc)) = rec" "fst (set_newstart 0 (rec, files, mc)) = rec"
    using assms by (simp_all add: set_newend_def set_newstart_def)
  have tc: "fst (trim_compare (CHR ''s'') hptrace d tsp (rec, files, mc)) = rec"
    if "reclen rec \<noteq> 0 \<and> \<not> overlapped rec tsp \<and>
          (crosses rec (mst_starttime hptrace) \<longrightarrow> mst_starttime hptrace - d = 0) \<and>
          (crosses rec (mst_endtime hptrace) \<longrightarrow> mst_endtime hptrace + d = 0)"
    using that assms
    by (auto simp: trim_compare_def Let_def set_newend_def set_newstart_def)
  have ob: "outblock rec (restamp opts (snd (trim_stage cd rec w1))) =
              take (nat (reclen rec)) (drop (offset rec) content)"
    if "restampqind opts = CHR 0x00 \<and> read_record rec w = Cont w1 \<and>
          fs w (infilename (file_of w rec)) = Some content"
    using that read_record_block [of rec w w1 content] by (simp add: ts restamp_def)
  show ?thesis
    using assms ts se tc ob
    by (simp add: effstarttime_def effendtime_def overlapped_def crosses_def)
qed

text \<open>
  C10. The split loop of \<open>readfiles\<close> gives the clone \<open>newstart = boundary\<close> and goes on with
  the clone; a boundary on tick 0 is the value of an unset trim time. For a record of 1 Hz
  data from -1 s to 1 s and a split on minutes the boundary is tick 0: the clone is equal to
  the record it was copied from, its effective start is again -1 s, the same boundary is
  found again, and the loop never returns, so that the record is neither indexed nor
  written. The same record from 58 s to 62 s is split at 60 s into two parts, as for every
  boundary other than tick 0. In the pruner, a trim time on tick 0 (a higher priority trace
  of 1 Hz data that starts at 1 s) leaves the descriptor of the record as it was, but the
  trimmed counter of the file and the number of modifications go up by one.
\<close>

theorem split_boundary_zero_endless:
  "next_boundary (CHR ''m'') (effstarttime (new_record 0 0 ex_msr (- 1000000) 1000000)) = Some 0 \<and>
   (new_record 0 0 ex_msr (- 1000000) 1000000)\<lparr>newstart := 0\<rparr> =
     new_record 0 0 ex_msr (- 1000000) 1000000 \<and>
   effstarttime ((new_record 0 0 ex_msr (- 1000000) 1000000)\<lparr>newstart := 0\<rparr>) = - 1000000 \<and>
   readfiles_record HPTERROR HPTERROR None None (CHR 0x00) (CHR ''m'') 0 0 ex_msr
       ''IU_ANMO_00_BHZ'' (- 1000000) 1000000 ex_files = None \<and>
   readfiles_record HPTERROR HPTERROR None None (CHR 0x00) (CHR ''m'') 0 0 ex_msr
       ''IU_ANMO_00_BHZ'' 58000000 62000000 ex_files =
     Some (Selected,
           [(new_record 0 0 ex_msr 58000000 62000000)\<lparr>newend := 59000000\<rparr>,
            (new_record 0 0 ex_msr 58000000 62000000)\<lparr>newstart := 60000000\<rparr>],
           [(ex_file ''a.mseed'')\<lparr>recsplitcount := 1\<rparr>, ex_file ''b.mseed'']) \<and>
   trim_compare (CHR ''s'') (ex_trace (CHR ''Q'') 1000000 20000000 []) 1000000
       (ex_seg 1000000 20000000) (ex_emit_rec 0 0, ex_files, 0) =
     (ex_emit_rec 0 0, [(ex_file ''a.mseed'')\<lparr>rectrimcount := 1\<rparr>, ex_file ''b.mseed''], 1)"
proof -
  have 1: "next_boundary (CHR ''m'') (effstarttime (new_record 0 0 ex_msr (- 1000000) 1000000)) = Some 0"
    by (simp add: new_record_def next_boundary_def effstarttime_def HPTMODULUS_def)
  have 2: "(new_record 0 0 ex_msr (- 1000000) 1000000)\<lparr>newstart := 0\<rparr> =
     new_record 0 0 ex_msr (- 1000000) 1000000"
    by (simp add: new_record_def)
  have 3: "effstarttime ((new_record 0 0 ex_msr (- 1000000) 1000000)\<lparr>newstart := 0\<rparr>) = - 1000000"
    by (simp add: new_record_def effstarttime_def)
  have "split_loop (CHR ''m'') (hpdelta_of 1) []
          (new_record 0 0 ex_msr (- 1000000) 1000000) ex_files = None"
    by (rule split_loop_diverges) (simp_all add: new_record_def next_boundary_def HPTMODULUS_def)
  then have 4: "readfiles_record HPTERROR HPTERROR None None (CHR 0x00) (CHR ''m'') 0 0 ex_msr
       ''IU_ANMO_00_BHZ'' (- 1000000) 1000000 ex_files = None"
    by (simp add: readfiles_record_def select_record_def split_record_def window_trim_def ex_msr_def)
  have d: "hpdelta_of 1 = 1000000" by (simp add: hpdelta_of_def c_trunc_def HPTMODULUS_def)
  have "split_loop (CHR ''m'') 1000000 [] (new_record 0 0 ex_msr 58000000 62000000) ex_files =
     Some ([(new_record 0 0 ex_msr 58000000 62000000)\<lparr>newend := 59000000\<rparr>,
            (new_record 0 0 ex_msr 58000000 62000000)\<lparr>newstart := 60000000\<rparr>],
           [(ex_file ''a.mseed'')\<lparr>recsplitcount := 1\<rparr>, ex_file ''b.mseed''])"
    by (simp add: split_loop.simps next_boundary_def effstarttime_def new_record_def HPTMODULUS_def
          ex_files_def ex_file_def upd_file_def)
  then have 5: "readfiles_record HPTERROR HPTERROR None None (CHR 0x00) (CHR ''m'') 0 0 ex_msr
       ''IU_ANMO_00_BHZ'' 58000000 62000000 ex_files =
     Some (Selected,
           [(new_record 0 0 ex_msr 58000000 62000000)\<lparr>newend := 59000000\<rparr>,
            (new_record 0 0 ex_msr 58000000 62000000)\<lparr>newstart := 60000000\<rparr>],
           [(ex_file ''a.mseed'')\<lparr>recsplitcount := 1\<rparr>, ex_file ''b.mseed''])"
    by (simp add: readfiles_record_def select_record_def split_record_def window_trim_def
          ex_msr_def d)
  have 6: "trim_compare (CHR ''s'') (ex_trace (CHR ''Q'') 1000000 20000000 []) 1000000
       (ex_seg 1000000 20000000) (ex_emit_rec 0 0, ex_files, 0) =
     (ex_emit_rec 0 0, [(ex_file ''a.mseed'')\<lparr>rectrimcount := 1\<rparr>, ex_file ''b.mseed''], 1)"
    by (simp add: trim_compare_def Let_def overlapped_def crosses_def set_newend_def set_newstart_def
          effstarttime_def effendtime_def ex_emit_rec_def ex_trace_def ex_seg_def ex_files_def
          ex_file_def upd_file_def)
  from 1 2 3 4 5 6 show ?thesis by (simp only: simp_thms)
qed

section \<open>Properties of setofilelimit and processpod\<close>

lemma ucast_scast_limit: "(ucast (scast (limit :: 32 word) :: 64 word) :: 32 word) = limit"
  by (rule bit_word_eqI) (auto simp: bit_simps)

lemma setofilelimit_cases:
  "setofilelimit limit os =
     (if getrlimit_fails os then (- 1, os)
      else if rlim_cur os < scast limit
      then (if scast limit \<le> rlim_max os then (limit, os\<lparr>rlim_cur := scast limit\<rparr>) else (- 1, os))
      else (ucast (rlim_cur os), os))"
  by (simp add: setofilelimit_def setrlimit_def ucast_scast_limit)

lemma pod_limit_not_error: "(of_nat (n * 2 + 20) :: 32 word) \<noteq> - 1"
proof
  assume "(of_nat (n * 2 + 20) :: 32 word) = - 1"
  then have "even (- 1 :: 32 word)" by (metis even_of_nat even_add even_mult_iff even_numeral)
  then show False by simp
qed

text \<open>
  C9 (amended). In POD mode, for a group of request records that is formed: the members of
  the group are marked as pruned. If the soft limit is below \<open>2 * filecount + 20\<close> and that
  value is not above the hard limit, the soft limit is raised to it and the files of the
  group are processed. Whenever \<open>setofilelimit\<close> returns -1, which it does when \<open>getrlimit\<close>
  fails and when the limit has to be raised and cannot be, nothing is processed for the
  group: its files are neither read nor written, and the limits stay as they were. In
  every other case the files of the group are processed. Outside POD mode the files are
  processed without a look at the limit.
\<close>

theorem pod_group_limit:
  assumes "\<not> pruned (reqs ! hound)"
  shows "case pod_group process poddatadir hound (reqs, os, w) of
     (reqs', os', w') \<Rightarrow>
       reqs' = mark_pruned (group_of reqs hound) reqs \<and>
       (\<not> getrlimit_fails os \<and>
        rlim_cur os < scast (of_nat (length (group_of reqs hound) * 2 + 20) :: 32 word) \<and>
        scast (of_nat (length (group_of reqs hound) * 2 + 20) :: 32 word) \<le> rlim_max os \<longrightarrow>
          rlim_cur os' = scast (of_nat (length (group_of reqs hound) * 2 + 20) :: 32 word) \<and>
          w' = process (map (\<lambda>i. datafile poddatadir (reqs ! i)) (group_of reqs hound)) w) \<and>
       (fst (setofilelimit (of_nat (length (group_of reqs hound) * 2 + 20)) os) = - 1 \<longrightarrow>
          w' = w \<and> os' = os) \<and>
       (getrlimit_fails os \<or>
        (rlim_cur os < scast (of_nat (length (group_of reqs hound) * 2 + 20) :: 32 word) \<and>
         rlim_max os < scast (of_nat (length (group_of reqs hound) * 2 + 20) :: 32 word)) \<longrightarrow>
          fst (setofilelimit (of_nat (length (group_of reqs hound) * 2 + 20)) os) = - 1) \<and>
       (fst (setofilelimit (of_nat (length (group_of reqs hound) * 2 + 20)) os) \<noteq> - 1 \<longrightarrow>
          w' = process (map (\<lambda>i. datafile poddatadir (reqs ! i)) (group_of reqs hound)) w) \<and>
       main_body process False poddatadir files (reqs, os, w) = (reqs, os, process files w)"
  using assms pod_limit_not_error [of "length (group_of reqs hound)"]
  by (auto simp: pod_group_def Let_def setofilelimit_cases main_body_def split: prod.splits)

theorem pod_group_limit_witness:
  "\<not> pruned ([ex_req] ! 0) \<and>
   \<not> getrlimit_fails (ex_os\<lparr>rlim_max := 1024\<rparr>) \<and>
   group_of [ex_req] 0 = [0] \<and>
   rlim_cur (fst (snd (pod_group (\<lambda>files w. w @ [files]) ''data'' 0
                         ([ex_req], ex_os\<lparr>rlim_max := 1024\<rparr>, [])))) = 22 \<and>
   snd (snd (pod_group (\<lambda>files w. w @ [files]) ''data'' 0
               ([ex_req], ex_os\<lparr>rlim_max := 1024\<rparr>, []))) = [[''data/ANMO/a.mseed'']] \<and>
   rlim_cur ex_os < 22 \<and> rlim_max ex_os < 22 \<and>
   snd (snd (pod_group (\<lambda>files w. w @ [files]) ''data'' 0 ([ex_req], ex_os, []))) = []"
proof -
  let ?os = "ex_os\<lparr>rlim_max := 1024\<rparr>"
  let ?limit = "of_nat (length (group_of [ex_req] 0) * 2 + 20) :: 32 word"
  have p: "\<not> pruned ([ex_req] ! 0)" by (simp add: ex_req_def)
  have g: "group_of [ex_req] 0 = [0]" by (simp add: group_of_def)
  have l: "(scast ?limit :: 64 word) = 22" by (simp add: g)
  have f: "map (\<lambda>i. datafile ''data'' ([ex_req] ! i)) (group_of [ex_req] 0) = [''data/ANMO/a.mseed'']"
    unfolding g by (simp add: datafile_def ex_req_def)
  have a: "\<not> getrlimit_fails ?os \<and> rlim_cur ?os < scast ?limit \<and> scast ?limit \<le> rlim_max ?os"
    unfolding l by (simp add: ex_os_def)
  obtain reqs' os' w' where pg:
    "pod_group (\<lambda>files w. w @ [files]) ''data'' 0 ([ex_req], ?os, []) = (reqs', os', w')"
    by (cases "pod_group (\<lambda>files w. w @ [files]) ''data'' 0 ([ex_req], ?os, [])")
  from pod_group_limit [OF p, where process = "\<lambda>files w. w @ [files]" and poddatadir = "''data''"
      and os = ?os and w = "[]" and files = "[]"] a
  have "rlim_cur os' = scast ?limit \<and>
        w' = [] @ [map (\<lambda>i. datafile ''data'' ([ex_req] ! i)) (group_of [ex_req] 0)]"
    unfolding pg prod.case by blast
  then have 1: "rlim_cur os' = 22 \<and> w' = [[''data/ANMO/a.mseed'']]"
    unfolding l f by simp
  have b: "rlim_cur ex_os < scast ?limit \<and> rlim_max ex_os < scast ?limit"
    unfolding l by (simp add: ex_os_def)
  obtain reqs2 os2 w2 where pg2:
    "pod_group (\<lambda>files w. w @ [files]) ''data'' 0 ([ex_req], ex_os, []) = (reqs2, os2, w2)"
    by (cases "pod_group (\<lambda>files w. w @ [files]) ''data'' 0 ([ex_req], ex_os, [])")
  from pod_group_limit [OF p, where process = "\<lambda>files w. w @ [files]" and poddatadir = "''data''"
      and os = ex_os and w = "[]" and files = "[]"] b
  have 2: "w2 = []"
    unfolding pg2 prod.case by blast
  from b have b': "rlim_cur ex_os < 22 \<and> rlim_max ex_os < 22" unfolding l .
  from p g a pg 1 pg2 2 b' show ?thesis by simp
qed

text \<open>The sentence of the spec fails for a process that cannot raise its limit: with a hard
  limit of 10 files the call for one file, \<open>setofilelimit (22)\<close>, returns -1, and nothing is
  read or written for the only group.\<close>

theorem processpod_limit_counterexample:
  "fst (setofilelimit 22 ex_os) = - 1 \<and>
   processpod (\<lambda>files w. w @ [files]) ''data'' ([ex_req], ex_os, []) =
     ([ex_req\<lparr>pruned := True\<rparr>], ex_os, [])"
  by code_simp


end
